theory Spec2Isabelle
  imports Main "HOL-Library.Word"
begin

section \<open>JavaScript values used by the two clients\<close>

text \<open>
  The repository holds two browser scripts: the books client and the users client
  (\<^verbatim>\<open>app.js\<close>). Both read form inputs, call a REST backend with \<^verbatim>\<open>fetch\<close> and write
  the rows of one table body. This section models the part of the JavaScript runtime
  the scripts rely on.

  A JavaScript string is a sequence of 16-bit code units. \<open>lit\<close> embeds an ASCII
  literal of the source.
\<close>

type_synonym jstring = "16 word list"

definition lit :: "string \<Rightarrow> jstring" where
  "lit s = map (\<lambda>c. of_nat (of_char c)) s"

text \<open>
  \<^verbatim>\<open>String.prototype.trim\<close> removes WhiteSpace and LineTerminator code units from both
  ends: TAB, LF, VT, FF, CR, SP, NBSP, the Unicode space separators, LS, PS and the
  byte order mark.
\<close>

definition isWhiteSpace :: "16 word \<Rightarrow> bool" where
  "isWhiteSpace c \<longleftrightarrow>
     c = 0x09 \<or> c = 0x0A \<or> c = 0x0B \<or> c = 0x0C \<or> c = 0x0D \<or> c = 0x20 \<or> c = 0xA0 \<or>
     c = 0x1680 \<or> (0x2000 \<le> c \<and> c \<le> 0x200A) \<or> c = 0x2028 \<or> c = 0x2029 \<or>
     c = 0x202F \<or> c = 0x205F \<or> c = 0x3000 \<or> c = 0xFEFF"

definition trimStart :: "jstring \<Rightarrow> jstring" where
  "trimStart s = dropWhile isWhiteSpace s"

definition trim :: "jstring \<Rightarrow> jstring" where
  "trim s = rev (dropWhile isWhiteSpace (rev (dropWhile isWhiteSpace s)))"

text \<open>
  Numbers. The scripts only meet integer-valued numbers: the result of \<^verbatim>\<open>parseInt\<close> and
  the identifiers of the data model. A number is modelled as \<open>NaN\<close> or a mathematical
  integer; this is exact up to \<open>2 ^ 53\<close> in magnitude. Beyond it JavaScript rounds to the
  nearest double (to \<^verbatim>\<open>Infinity\<close> for very long digit strings) and prints numbers from
  \<^verbatim>\<open>1e21\<close> in exponent notation, so the text of such an identifier in a URL, an alert
  or a row differs from the model's full decimal; a non-zero value stays non-zero, so
  truthiness is exact for every input. Negative zero is identified with zero: both are
  falsy and both print as \<^verbatim>\<open>0\<close>.
\<close>

datatype number = NaN | Num int

fun truthyNumber :: "number \<Rightarrow> bool" where
  "truthyNumber NaN = False"
| "truthyNumber (Num n) = (n \<noteq> 0)"

fun digitValue :: "16 word \<Rightarrow> nat option" where
  "digitValue c =
     (if 0x30 \<le> c \<and> c \<le> 0x39 then Some (unat c - 0x30)
      else if 0x61 \<le> c \<and> c \<le> 0x7A then Some (unat c - 0x61 + 10)
      else if 0x41 \<le> c \<and> c \<le> 0x5A then Some (unat c - 0x41 + 10)
      else None)"

definition isRadixDigit :: "nat \<Rightarrow> 16 word \<Rightarrow> bool" where
  "isRadixDigit R c = (case digitValue c of Some d \<Rightarrow> d < R | None \<Rightarrow> False)"

definition mathInt :: "nat \<Rightarrow> jstring \<Rightarrow> int" where
  "mathInt R Z =
     foldl (\<lambda>acc c. case digitValue c of Some d \<Rightarrow> acc * int R + int d | None \<Rightarrow> acc) 0 Z"

fun stripSign :: "jstring \<Rightarrow> int \<times> jstring" where
  "stripSign [] = (1, [])"
| "stripSign (c # cs) =
     (if c = 0x2D then (- 1, cs) else if c = 0x2B then (1, cs) else (1, c # cs))"

fun stripPrefix :: "jstring \<Rightarrow> nat \<times> jstring" where
  "stripPrefix (a # b # cs) =
     (if a = 0x30 \<and> (b = 0x78 \<or> b = 0x58) then (16, cs) else (10, a # b # cs))"
| "stripPrefix cs = (10, cs)"

text \<open>
  \<^verbatim>\<open>parseInt(string)\<close> with no radix: skip leading white space, read an optional sign,
  switch to radix 16 after \<^verbatim>\<open>0x\<close> or \<^verbatim>\<open>0X\<close>, and read the longest run of digits; no
  digit gives \<open>NaN\<close>.
\<close>

definition parseInt :: "jstring \<Rightarrow> number" where
  "parseInt s =
     (case stripSign (trimStart s) of (sign, S1) \<Rightarrow>
        (case stripPrefix S1 of (R, S2) \<Rightarrow>
           (let Z = takeWhile (isRadixDigit R) S2
            in if Z = [] then NaN else Num (sign * mathInt R Z))))"

fun decimalDigits :: "nat \<Rightarrow> jstring" where
  "decimalDigits n =
     (if n < 10 then [0x30 + of_nat n]
      else decimalDigits (n div 10) @ [0x30 + of_nat (n mod 10)])"

fun numberToString :: "number \<Rightarrow> jstring" where
  "numberToString NaN = lit ''NaN''"
| "numberToString (Num n) =
     (if n < 0 then 0x2D # decimalDigits (nat (- n)) else decimalDigits (nat n))"

subsection \<open>Errors\<close>

text \<open>
  Everything the scripts catch is an error object with a \<^verbatim>\<open>message\<close>. The texts of the
  errors raised by the runtime itself are engine-defined; the model takes V8's. No
  property below depends on their wording.
\<close>

datatype errkind = Error | TypeError | SyntaxError | URIError | DOMException

datatype jserror = JsError errkind jstring

fun message :: "jserror \<Rightarrow> jstring" where
  "message (JsError k m) = m"

subsection \<open>Parsed JSON\<close>

text \<open>
  The value \<^verbatim>\<open>response.json()\<close> resolves to. JSON numbers are restricted to integers,
  as the identifiers of the data model are. An object keeps its members in source order;
  \<^verbatim>\<open>JSON.parse\<close> lets the last of two equal keys win. \<^verbatim>\<open>undefined\<close> is \<open>None\<close> of
  \<open>json option\<close>.
\<close>

datatype json =
    JNull
  | JBool bool
  | JNum int
  | JStr jstring
  | JArr "json list"
  | JObj "(jstring \<times> json) list"

text \<open>
  Property read \<^verbatim>\<open>v.key\<close> for the keys the scripts use (\<^verbatim>\<open>id\<close>, \<^verbatim>\<open>title\<close>,
  \<^verbatim>\<open>author\<close>, \<^verbatim>\<open>name\<close>, \<^verbatim>\<open>detail\<close>), none of which is on a built-in prototype: reading
  a property of \<^verbatim>\<open>null\<close> throws, an object gives its own member, every other value gives
  \<^verbatim>\<open>undefined\<close>.
\<close>

fun getProp :: "string \<Rightarrow> json \<Rightarrow> jserror + json option" where
  "getProp key JNull =
     Inl (JsError TypeError
       (lit ''Cannot read properties of null (reading '' @ [0x27] @ lit key @ [0x27] @ lit '')''))"
| "getProp key (JObj members) = Inr (map_of (rev members) (lit key))"
| "getProp key v = Inr None"

fun truthy :: "json option \<Rightarrow> bool" where
  "truthy None = False"
| "truthy (Some JNull) = False"
| "truthy (Some (JBool b)) = b"
| "truthy (Some (JNum n)) = (n \<noteq> 0)"
| "truthy (Some (JStr s)) = (s \<noteq> [])"
| "truthy (Some (JArr xs)) = True"
| "truthy (Some (JObj members)) = True"

text \<open>
  \<^verbatim>\<open>ToString\<close>, as a template literal and \<^verbatim>\<open>new Error(x)\<close> apply it. An array joins
  its elements with commas, \<^verbatim>\<open>null\<close> elements printing as the empty string. A plain
  object prints as \<^verbatim>\<open>[object Object]\<close>, unless it has an own member \<^verbatim>\<open>toString\<close>: that
  member shadows \<^verbatim>\<open>Object.prototype.toString\<close> and is not callable, so the conversion
  throws.
\<close>

fun toStr :: "json \<Rightarrow> jserror + jstring"
  and joinElems :: "json list \<Rightarrow> jserror + jstring" where
  "toStr JNull = Inr (lit ''null'')"
| "toStr (JBool b) = Inr (if b then lit ''true'' else lit ''false'')"
| "toStr (JNum n) = Inr (numberToString (Num n))"
| "toStr (JStr s) = Inr s"
| "toStr (JArr xs) = joinElems xs"
| "toStr (JObj members) =
     (if lit ''toString'' \<in> fst ` set members
      then Inl (JsError TypeError (lit ''Cannot convert object to primitive value''))
      else Inr (lit ''[object Object]''))"
| "joinElems [] = Inr []"
| "joinElems [x] = (if x = JNull then Inr [] else toStr x)"
| "joinElems (x # y # ys) =
     (case (if x = JNull then Inr [] else toStr x) of
        Inl e \<Rightarrow> Inl e
      | Inr s \<Rightarrow> (case joinElems (y # ys) of
                   Inl e \<Rightarrow> Inl e
                 | Inr t \<Rightarrow> Inr (s @ lit '','' @ t)))"

fun toString :: "json option \<Rightarrow> jserror + jstring" where
  "toString None = Inr (lit ''undefined'')"
| "toString (Some v) = toStr v"

text \<open>The interpolation \<^verbatim>\<open>${v.key}\<close> of a template literal.\<close>

definition interp :: "json \<Rightarrow> string \<Rightarrow> jserror + jstring" where
  "interp v key = (case getProp key v of Inl e \<Rightarrow> Inl e | Inr p \<Rightarrow> toString p)"

subsection \<open>encodeURIComponent\<close>

text \<open>
  Letters, digits and \<^verbatim>\<open>- _ . ! ~ * ' ( )\<close> are kept; every other code point is written
  as the percent-escaped octets of its UTF-8 encoding. A surrogate code unit that is not
  part of a pair makes the function throw a \<^verbatim>\<open>URIError\<close>.
\<close>

definition isUnreserved :: "16 word \<Rightarrow> bool" where
  "isUnreserved c \<longleftrightarrow>
     (0x41 \<le> c \<and> c \<le> 0x5A) \<or> (0x61 \<le> c \<and> c \<le> 0x7A) \<or> (0x30 \<le> c \<and> c \<le> 0x39) \<or>
     c = 0x2D \<or> c = 0x5F \<or> c = 0x2E \<or> c = 0x21 \<or> c = 0x7E \<or> c = 0x2A \<or> c = 0x27 \<or>
     c = 0x28 \<or> c = 0x29"

definition isLeadSurrogate :: "16 word \<Rightarrow> bool" where
  "isLeadSurrogate c \<longleftrightarrow> 0xD800 \<le> c \<and> c \<le> 0xDBFF"

definition isTrailSurrogate :: "16 word \<Rightarrow> bool" where
  "isTrailSurrogate c \<longleftrightarrow> 0xDC00 \<le> c \<and> c \<le> 0xDFFF"

definition codePoint :: "16 word \<Rightarrow> 16 word \<Rightarrow> nat" where
  "codePoint lead trail = 0x10000 + (unat lead - 0xD800) * 0x400 + (unat trail - 0xDC00)"

definition utf8 :: "nat \<Rightarrow> nat list" where
  "utf8 cp =
     (if cp < 0x80 then [cp]
      else if cp < 0x800 then [0xC0 + cp div 0x40, 0x80 + cp mod 0x40]
      else if cp < 0x10000 then
        [0xE0 + cp div 0x1000, 0x80 + (cp div 0x40) mod 0x40, 0x80 + cp mod 0x40]
      else
        [0xF0 + cp div 0x40000, 0x80 + (cp div 0x1000) mod 0x40,
         0x80 + (cp div 0x40) mod 0x40, 0x80 + cp mod 0x40])"

definition hexDigit :: "nat \<Rightarrow> 16 word" where
  "hexDigit d = (if d < 10 then 0x30 + of_nat d else 0x41 + of_nat (d - 10))"

definition percentEscape :: "nat list \<Rightarrow> jstring" where
  "percentEscape octets = concat (map (\<lambda>b. [0x25, hexDigit (b div 16), hexDigit (b mod 16)]) octets)"

definition uriMalformed :: jserror where
  "uriMalformed = JsError URIError (lit ''URI malformed'')"

fun encodeURIComponent :: "jstring \<Rightarrow> jserror + jstring" where
  "encodeURIComponent [] = Inr []"
| "encodeURIComponent (c # cs) =
     (if isUnreserved c then
        (case encodeURIComponent cs of Inl e \<Rightarrow> Inl e | Inr r \<Rightarrow> Inr (c # r))
      else if isTrailSurrogate c then Inl uriMalformed
      else if isLeadSurrogate c then
        (case cs of
           [] \<Rightarrow> Inl uriMalformed
         | d # ds \<Rightarrow>
             if isTrailSurrogate d then
               (case encodeURIComponent ds of
                  Inl e \<Rightarrow> Inl e
                | Inr r \<Rightarrow> Inr (percentEscape (utf8 (codePoint c d)) @ r))
             else Inl uriMalformed)
      else
        (case encodeURIComponent cs of
           Inl e \<Rightarrow> Inl e
         | Inr r \<Rightarrow> Inr (percentEscape (utf8 (unat c)) @ r)))"

section \<open>The page and its environment\<close>

text \<open>
  A request as \<^verbatim>\<open>fetch\<close> receives it (\<open>httpMethod\<close> is the \<^verbatim>\<open>method\<close> option). The body is the JSON value that
  \<^verbatim>\<open>JSON.stringify\<close> serialises. A response is read through \<^verbatim>\<open>response.ok\<close> and
  \<^verbatim>\<open>response.json()\<close> only; the latter resolves to a parsed value or rejects.
  \<^verbatim>\<open>fetch\<close> itself rejects when the network fails.
\<close>

datatype http_method = GET | POST | PUT | DELETE

record request =
  httpMethod :: http_method
  url :: jstring
  headers :: "(jstring \<times> jstring) list"
  body :: "json option"

record response =
  ok :: bool
  jsonBody :: "jserror + json"

type_synonym fetch_result = "jserror + response"

datatype consoleArg = CStr jstring | CErr jserror | CVal json

text \<open>
  What a handler does to the outside world, in order: requests with the outcome the
  network gave, console entries, alerts, and confirmation dialogs with the user's answer.
\<close>

datatype effect =
    Fetch request fetch_result
  | ConsoleLog "consoleArg list"
  | ConsoleError "consoleArg list"
  | Alert jstring
  | Confirm jstring bool

fun requestsOf :: "effect list \<Rightarrow> request list" where
  "requestsOf [] = []"
| "requestsOf (Fetch r res # es) = r # requestsOf es"
| "requestsOf (e # es) = requestsOf es"

text \<open>
  The server and the network are outside the repository: the outcome of a request is
  any function of the requests sent so far, the last one being the request at hand.
\<close>

type_synonym network = "request list \<Rightarrow> fetch_result"

record world =
  trace :: "effect list"

definition fetch :: "network \<Rightarrow> request \<Rightarrow> 'a world_scheme \<Rightarrow> fetch_result \<times> 'a world_scheme" where
  "fetch net req w =
     (let res = net (requestsOf (trace w) @ [req])
      in (res, w\<lparr>trace := trace w @ [Fetch req res]\<rparr>))"

definition alert :: "jstring \<Rightarrow> 'a world_scheme \<Rightarrow> 'a world_scheme" where
  "alert msg w = w\<lparr>trace := trace w @ [Alert msg]\<rparr>"

definition console_log :: "consoleArg list \<Rightarrow> 'a world_scheme \<Rightarrow> 'a world_scheme" where
  "console_log args w = w\<lparr>trace := trace w @ [ConsoleLog args]\<rparr>"

definition console_error :: "consoleArg list \<Rightarrow> 'a world_scheme \<Rightarrow> 'a world_scheme" where
  "console_error args w = w\<lparr>trace := trace w @ [ConsoleError args]\<rparr>"

definition confirm :: "jstring \<Rightarrow> bool \<Rightarrow> 'a world_scheme \<Rightarrow> bool \<times> 'a world_scheme" where
  "confirm msg answer w = (answer, w\<lparr>trace := trace w @ [Confirm msg answer]\<rparr>)"

definition get_request :: "jstring \<Rightarrow> request" where
  "get_request u = \<lparr>httpMethod = GET, url = u, headers = [], body = None\<rparr>"

definition delete_request :: "jstring \<Rightarrow> request" where
  "delete_request u = \<lparr>httpMethod = DELETE, url = u, headers = [], body = None\<rparr>"

definition json_request :: "http_method \<Rightarrow> jstring \<Rightarrow> json \<Rightarrow> request" where
  "json_request m u v =
     \<lparr>httpMethod = m, url = u,
      headers = [(lit ''Content-Type'', lit ''application/json'')],
      body = Some v\<rparr>"

text \<open>
  The branch both scripts take on a response that is not ok:
  \<^verbatim>\<open>const err = await response.json(); throw new Error(err.detail || fallback)\<close>.
  Every path through it throws; \<open>errorOf\<close> is the error thrown.
\<close>

definition errorOf :: "response \<Rightarrow> string \<Rightarrow> jserror" where
  "errorOf resp fallback =
     (case jsonBody resp of
        Inl e \<Rightarrow> e
      | Inr err \<Rightarrow>
          (case getProp ''detail'' err of
             Inl e \<Rightarrow> e
           | Inr detail \<Rightarrow>
               if truthy detail then
                 (case toString detail of Inl e \<Rightarrow> e | Inr m \<Rightarrow> JsError Error m)
               else JsError Error (lit fallback)))"

section \<open>The books client\<close>

text \<open>
  The page of the books client: the rows of \<^verbatim>\<open>bookTableBody\<close>, each row being the
  markup assigned to its \<^verbatim>\<open>innerHTML\<close>, and the values of the seven inputs.
\<close>

record books_page = world +
  bookTableBody :: "jstring list"
  createTitle :: jstring
  createAuthor :: jstring
  updateId_books :: jstring
  updateTitle :: jstring
  updateAuthor :: jstring
  searchInput :: jstring

definition API_URL_books :: jstring where
  "API_URL_books = lit ''/api/books''"

definition bookRow :: "json \<Rightarrow> jserror + jstring" where
  "bookRow book =
     (case interp book ''id'' of Inl e \<Rightarrow> Inl e | Inr i \<Rightarrow>
     (case interp book ''title'' of Inl e \<Rightarrow> Inl e | Inr t \<Rightarrow>
     (case interp book ''author'' of Inl e \<Rightarrow> Inl e | Inr a \<Rightarrow>
        Inr ([0x0A] @ lit ''            <td>'' @ i @ lit ''</td>'' @
             [0x0A] @ lit ''            <td>'' @ t @ lit ''</td>'' @
             [0x0A] @ lit ''            <td>'' @ a @ lit ''</td>'' @
             [0x0A] @ lit ''        ''))))"

fun forEachBook :: "json list \<Rightarrow> books_page \<Rightarrow> jserror option \<times> books_page" where
  "forEachBook [] st = (None, st)"
| "forEachBook (book # books) st =
     (case bookRow book of
        Inl e \<Rightarrow> (Some e, st)
      | Inr row \<Rightarrow> forEachBook books (st\<lparr>bookTableBody := bookTableBody st @ [row]\<rparr>))"

text \<open>
  \<open>displayBooks\<close> returns the error it throws, if any, with the page as it is then.
  A value that is not an array has no callable \<^verbatim>\<open>forEach\<close>: the call throws after the
  table body has been emptied.
\<close>

definition displayBooks :: "json \<Rightarrow> books_page \<Rightarrow> jserror option \<times> books_page" where
  "displayBooks books st =
     (let st1 = st\<lparr>bookTableBody := []\<rparr>
      in case books of
           JArr xs \<Rightarrow> forEachBook xs st1
         | JNull \<Rightarrow>
             (Some (JsError TypeError
                (lit ''Cannot read properties of null (reading '' @ [0x27] @ lit ''forEach'' @
                 [0x27] @ lit '')'')), st1)
         | _ \<Rightarrow> (Some (JsError TypeError (lit ''books.forEach is not a function'')), st1))"

definition loadBooks_catch :: "jserror \<Rightarrow> books_page \<Rightarrow> books_page" where
  "loadBooks_catch error st =
     alert (lit ''Failed to load books'')
       (console_error [CStr (lit ''Error loading books:''), CErr error] st)"

definition loadBooks :: "network \<Rightarrow> books_page \<Rightarrow> books_page" where
  "loadBooks net st =
     (case fetch net (get_request API_URL_books) st of
        (Inl e, st1) \<Rightarrow> loadBooks_catch e st1
      | (Inr resp, st1) \<Rightarrow>
          if \<not> ok resp then loadBooks_catch (JsError Error (lit ''Failed to fetch books'')) st1
          else
            (case jsonBody resp of
               Inl e \<Rightarrow> loadBooks_catch e st1
             | Inr books \<Rightarrow>
                 (case displayBooks books st1 of
                    (Some e, st2) \<Rightarrow> loadBooks_catch e st2
                  | (None, st2) \<Rightarrow> st2)))"

definition createBook_catch :: "jserror \<Rightarrow> books_page \<Rightarrow> books_page" where
  "createBook_catch error st =
     alert (lit ''Failed to create book: '' @ message error)
       (console_error [CStr (lit ''Error creating book:''), CErr error] st)"

definition createBook :: "network \<Rightarrow> books_page \<Rightarrow> books_page" where
  "createBook net st =
     (let title = trim (createTitle st); author = trim (createAuthor st)
      in if title = [] \<or> author = [] then
           alert (lit ''Please enter both a book title and an author name'') st
         else
           (case fetch net
                   (json_request POST API_URL_books
                      (JObj [(lit ''title'', JStr title), (lit ''author'', JStr author)])) st of
              (Inl e, st1) \<Rightarrow> createBook_catch e st1
            | (Inr resp, st1) \<Rightarrow>
                if \<not> ok resp then createBook_catch (errorOf resp ''Failed to create book'') st1
                else
                  (case jsonBody resp of
                     Inl e \<Rightarrow> createBook_catch e st1
                   | Inr newBook \<Rightarrow>
                       (let st2 = console_log [CStr (lit ''Created book:''), CVal newBook] st1;
                            st3 = st2\<lparr>createTitle := [], createAuthor := []\<rparr>;
                            st4 = loadBooks net st3
                        in case interp newBook ''title'' of
                             Inl e \<Rightarrow> createBook_catch e st4
                           | Inr t \<Rightarrow>
                               (case interp newBook ''author'' of
                                  Inl e \<Rightarrow> createBook_catch e st4
                                | Inr a \<Rightarrow>
                                    alert (lit ''Book \"'' @ t @ lit ''\" by '' @ a @ lit '' added!'')
                                      st4)))))"

definition updateBook_catch :: "jserror \<Rightarrow> books_page \<Rightarrow> books_page" where
  "updateBook_catch error st =
     alert (lit ''Failed to update book: '' @ message error)
       (console_error [CStr (lit ''Error updating book:''), CErr error] st)"

definition updateBook :: "network \<Rightarrow> books_page \<Rightarrow> books_page" where
  "updateBook net st =
     (let id = parseInt (updateId_books st);
          title = trim (updateTitle st);
          author = trim (updateAuthor st)
      in if \<not> truthyNumber id \<or> title = [] \<or> author = [] then
           alert (lit ''Please enter the Book ID, new title, and new author'') st
         else
           (case fetch net
                   (json_request PUT (API_URL_books @ lit ''/'' @ numberToString id)
                      (JObj [(lit ''title'', JStr title), (lit ''author'', JStr author)])) st of
              (Inl e, st1) \<Rightarrow> updateBook_catch e st1
            | (Inr resp, st1) \<Rightarrow>
                if \<not> ok resp then updateBook_catch (errorOf resp ''Failed to update book'') st1
                else
                  (case jsonBody resp of
                     Inl e \<Rightarrow> updateBook_catch e st1
                   | Inr updated \<Rightarrow>
                       (let st2 = console_log [CStr (lit ''Updated book:''), CVal updated] st1;
                            st3 = st2\<lparr>updateId_books := [], updateTitle := [], updateAuthor := []\<rparr>;
                            st4 = loadBooks net st3
                        in case interp updated ''title'' of
                             Inl e \<Rightarrow> updateBook_catch e st4
                           | Inr t \<Rightarrow>
                               (case interp updated ''author'' of
                                  Inl e \<Rightarrow> updateBook_catch e st4
                                | Inr a \<Rightarrow>
                                    alert (lit ''Book ID '' @ numberToString id @
                                           lit '' updated to \"'' @ t @ lit ''\" by '' @ a)
                                      st4)))))"

definition deleteHighestBook_catch :: "jserror \<Rightarrow> books_page \<Rightarrow> books_page" where
  "deleteHighestBook_catch error st =
     alert (lit ''Failed to delete book: '' @ message error)
       (console_error [CStr (lit ''Error deleting book:''), CErr error] st)"

text \<open>The second argument is the user's answer to the confirmation dialog.\<close>

definition deleteHighestBook :: "network \<Rightarrow> bool \<Rightarrow> books_page \<Rightarrow> books_page" where
  "deleteHighestBook net answer st =
     (case confirm (lit ''Are you sure you want to delete the book with the highest ID?'')
             answer st of
        (False, st0) \<Rightarrow> st0
      | (True, st0) \<Rightarrow>
          (case fetch net (delete_request (API_URL_books @ lit ''/highest'')) st0 of
             (Inl e, st1) \<Rightarrow> deleteHighestBook_catch e st1
           | (Inr resp, st1) \<Rightarrow>
               if \<not> ok resp then
                 deleteHighestBook_catch (errorOf resp ''Failed to delete book'') st1
               else
                 (let st2 = console_log [CStr (lit ''Deleted book with highest ID'')] st1;
                      st3 = loadBooks net st2
                  in alert (lit ''Book with the highest ID has been deleted!'') st3)))"

definition searchBooks_catch :: "jserror \<Rightarrow> books_page \<Rightarrow> books_page" where
  "searchBooks_catch error st =
     alert (lit ''Search failed: '' @ message error)
       (console_error [CStr (lit ''Error searching books:''), CErr error] st)"

definition searchBooks :: "network \<Rightarrow> books_page \<Rightarrow> books_page" where
  "searchBooks net st =
     (let query = trim (searchInput st)
      in if query = [] then alert (lit ''Please enter a search term'') st
         else
           (case encodeURIComponent query of
              Inl e \<Rightarrow> searchBooks_catch e st
            | Inr encoded \<Rightarrow>
                (case fetch net (get_request (API_URL_books @ lit ''?search='' @ encoded)) st of
                   (Inl e, st1) \<Rightarrow> searchBooks_catch e st1
                 | (Inr resp, st1) \<Rightarrow>
                     if \<not> ok resp then searchBooks_catch (JsError Error (lit ''Search failed'')) st1
                     else
                       (case jsonBody resp of
                          Inl e \<Rightarrow> searchBooks_catch e st1
                        | Inr results \<Rightarrow>
                            (case displayBooks results st1 of
                               (Some e, st2) \<Rightarrow> searchBooks_catch e st2
                             | (None, st2) \<Rightarrow> st2)))))"

definition clearSearch :: "network \<Rightarrow> books_page \<Rightarrow> books_page" where
  "clearSearch net st = loadBooks net (st\<lparr>searchInput := []\<rparr>)"

section \<open>The users client\<close>

text \<open>
  The page of \<^verbatim>\<open>app.js\<close>: the rows of \<^verbatim>\<open>userTableBody\<close> and the values of the four
  inputs.
\<close>

record users_page = world +
  userTableBody :: "jstring list"
  createName :: jstring
  updateId_users :: jstring
  updateName :: jstring
  deleteId :: jstring

definition API_URL_users :: jstring where
  "API_URL_users = lit ''/api/users''"

definition userRow :: "json \<Rightarrow> jserror + jstring" where
  "userRow user =
     (case interp user ''id'' of Inl e \<Rightarrow> Inl e | Inr i \<Rightarrow>
     (case interp user ''name'' of Inl e \<Rightarrow> Inl e | Inr n \<Rightarrow>
        Inr ([0x0A] @ lit ''            <td>'' @ i @ lit ''</td>'' @
             [0x0A] @ lit ''            <td>'' @ n @ lit ''</td>'' @
             [0x0A] @ lit ''        '')))"

fun forEachUser :: "json list \<Rightarrow> users_page \<Rightarrow> jserror option \<times> users_page" where
  "forEachUser [] st = (None, st)"
| "forEachUser (user # users) st =
     (case userRow user of
        Inl e \<Rightarrow> (Some e, st)
      | Inr row \<Rightarrow> forEachUser users (st\<lparr>userTableBody := userTableBody st @ [row]\<rparr>))"

definition displayUsers :: "json \<Rightarrow> users_page \<Rightarrow> jserror option \<times> users_page" where
  "displayUsers users st =
     (let st1 = st\<lparr>userTableBody := []\<rparr>
      in case users of
           JArr xs \<Rightarrow> forEachUser xs st1
         | JNull \<Rightarrow>
             (Some (JsError TypeError
                (lit ''Cannot read properties of null (reading '' @ [0x27] @ lit ''forEach'' @
                 [0x27] @ lit '')'')), st1)
         | _ \<Rightarrow> (Some (JsError TypeError (lit ''users.forEach is not a function'')), st1))"

definition loadUsers_catch :: "jserror \<Rightarrow> users_page \<Rightarrow> users_page" where
  "loadUsers_catch error st =
     alert (lit ''Failed to load users'')
       (console_error [CStr (lit ''Error loading users:''), CErr error] st)"

definition loadUsers :: "network \<Rightarrow> users_page \<Rightarrow> users_page" where
  "loadUsers net st =
     (case fetch net (get_request API_URL_users) st of
        (Inl e, st1) \<Rightarrow> loadUsers_catch e st1
      | (Inr resp, st1) \<Rightarrow>
          if \<not> ok resp then loadUsers_catch (JsError Error (lit ''Failed to fetch users'')) st1
          else
            (case jsonBody resp of
               Inl e \<Rightarrow> loadUsers_catch e st1
             | Inr users \<Rightarrow>
                 (case displayUsers users st1 of
                    (Some e, st2) \<Rightarrow> loadUsers_catch e st2
                  | (None, st2) \<Rightarrow> st2)))"

definition createUser_catch :: "jserror \<Rightarrow> users_page \<Rightarrow> users_page" where
  "createUser_catch error st =
     alert (lit ''Failed to create user: '' @ message error)
       (console_error [CStr (lit ''Error creating user:''), CErr error] st)"

definition createUser :: "network \<Rightarrow> users_page \<Rightarrow> users_page" where
  "createUser net st =
     (let name = trim (createName st)
      in if name = [] then alert (lit ''Please enter a user name'') st
         else
           (case fetch net
                   (json_request POST API_URL_users (JObj [(lit ''name'', JStr name)])) st of
              (Inl e, st1) \<Rightarrow> createUser_catch e st1
            | (Inr resp, st1) \<Rightarrow>
                if \<not> ok resp then createUser_catch (errorOf resp ''Failed to create user'') st1
                else
                  (case jsonBody resp of
                     Inl e \<Rightarrow> createUser_catch e st1
                   | Inr newUser \<Rightarrow>
                       (let st2 = console_log [CStr (lit ''Created user:''), CVal newUser] st1;
                            st3 = st2\<lparr>createName := []\<rparr>;
                            st4 = loadUsers net st3
                        in case interp newUser ''name'' of
                             Inl e \<Rightarrow> createUser_catch e st4
                           | Inr n \<Rightarrow>
                               alert (lit ''User \"'' @ n @ lit ''\" created successfully!'')
                                 st4))))"

definition updateUser_catch :: "jserror \<Rightarrow> users_page \<Rightarrow> users_page" where
  "updateUser_catch error st =
     alert (lit ''Failed to update user: '' @ message error)
       (console_error [CStr (lit ''Error updating user:''), CErr error] st)"

definition updateUser :: "network \<Rightarrow> users_page \<Rightarrow> users_page" where
  "updateUser net st =
     (let id = parseInt (updateId_users st);
          name = trim (updateName st)
      in if \<not> truthyNumber id \<or> name = [] then
           alert (lit ''Please enter both User ID and new name'') st
         else
           (case fetch net
                   (json_request PUT (API_URL_users @ lit ''/'' @ numberToString id)
                      (JObj [(lit ''name'', JStr name)])) st of
              (Inl e, st1) \<Rightarrow> updateUser_catch e st1
            | (Inr resp, st1) \<Rightarrow>
                if \<not> ok resp then updateUser_catch (errorOf resp ''Failed to update user'') st1
                else
                  (case jsonBody resp of
                     Inl e \<Rightarrow> updateUser_catch e st1
                   | Inr updatedUser \<Rightarrow>
                       (let st2 = console_log [CStr (lit ''Updated user:''), CVal updatedUser] st1;
                            st3 = st2\<lparr>updateId_users := [], updateName := []\<rparr>;
                            st4 = loadUsers net st3
                        in alert (lit ''User ID '' @ numberToString id @
                                  lit '' updated successfully!'') st4))))"

definition deleteUser_catch :: "jserror \<Rightarrow> users_page \<Rightarrow> users_page" where
  "deleteUser_catch error st =
     alert (lit ''Failed to delete user: '' @ message error)
       (console_error [CStr (lit ''Error deleting user:''), CErr error] st)"

text \<open>The second argument is the user's answer to the confirmation dialog, if it opens.\<close>

definition deleteUser :: "network \<Rightarrow> bool \<Rightarrow> users_page \<Rightarrow> users_page" where
  "deleteUser net answer st =
     (let id = parseInt (deleteId st)
      in if \<not> truthyNumber id then alert (lit ''Please enter a User ID'') st
         else
           (case confirm (lit ''Are you sure you want to delete user ID '' @ numberToString id @
                          lit ''?'') answer st of
              (False, st0) \<Rightarrow> st0
            | (True, st0) \<Rightarrow>
                (case fetch net (delete_request (API_URL_users @ lit ''/'' @ numberToString id))
                        st0 of
                   (Inl e, st1) \<Rightarrow> deleteUser_catch e st1
                 | (Inr resp, st1) \<Rightarrow>
                     if \<not> ok resp then
                       deleteUser_catch (errorOf resp ''Failed to delete user'') st1
                     else
                       (let st2 = console_log
                                    [CStr (lit ''Deleted user ID '' @ numberToString id)] st1;
                            st3 = st2\<lparr>deleteId := []\<rparr>;
                            st4 = loadUsers net st3
                        in alert (lit ''User ID '' @ numberToString id @
                                  lit '' deleted successfully!'') st4))))"

section \<open>Sequences of handler invocations\<close>

text \<open>
  Between two handler runs the user may edit any input. A run of the page is a list of
  such actions; the handlers are the ones the page's buttons and its
  \<^verbatim>\<open>DOMContentLoaded\<close> listener call.
\<close>

datatype books_input =
  CreateTitle | CreateAuthor | UpdateIdB | UpdateTitle | UpdateAuthor | SearchInput

fun setBooksInput :: "books_input \<Rightarrow> jstring \<Rightarrow> books_page \<Rightarrow> books_page" where
  "setBooksInput CreateTitle v st = st\<lparr>createTitle := v\<rparr>"
| "setBooksInput CreateAuthor v st = st\<lparr>createAuthor := v\<rparr>"
| "setBooksInput UpdateIdB v st = st\<lparr>updateId_books := v\<rparr>"
| "setBooksInput UpdateTitle v st = st\<lparr>updateTitle := v\<rparr>"
| "setBooksInput UpdateAuthor v st = st\<lparr>updateAuthor := v\<rparr>"
| "setBooksInput SearchInput v st = st\<lparr>searchInput := v\<rparr>"

datatype books_action =
    LoadBooks
  | CreateBook
  | UpdateBook
  | DeleteHighestBook bool
  | SearchBooks
  | ClearSearch
  | TypeBooks books_input jstring

fun books_step :: "network \<Rightarrow> books_page \<Rightarrow> books_action \<Rightarrow> books_page" where
  "books_step net st LoadBooks = loadBooks net st"
| "books_step net st CreateBook = createBook net st"
| "books_step net st UpdateBook = updateBook net st"
| "books_step net st (DeleteHighestBook answer) = deleteHighestBook net answer st"
| "books_step net st SearchBooks = searchBooks net st"
| "books_step net st ClearSearch = clearSearch net st"
| "books_step net st (TypeBooks i v) = setBooksInput i v st"

definition books_run :: "network \<Rightarrow> books_action list \<Rightarrow> books_page \<Rightarrow> books_page" where
  "books_run net acts st = foldl (books_step net) st acts"

datatype users_input = CreateName | UpdateIdU | UpdateName | DeleteId

fun setUsersInput :: "users_input \<Rightarrow> jstring \<Rightarrow> users_page \<Rightarrow> users_page" where
  "setUsersInput CreateName v st = st\<lparr>createName := v\<rparr>"
| "setUsersInput UpdateIdU v st = st\<lparr>updateId_users := v\<rparr>"
| "setUsersInput UpdateName v st = st\<lparr>updateName := v\<rparr>"
| "setUsersInput DeleteId v st = st\<lparr>deleteId := v\<rparr>"

datatype users_action =
    LoadUsers
  | CreateUser
  | UpdateUser
  | DeleteUser bool
  | TypeUsers users_input jstring

fun users_step :: "network \<Rightarrow> users_page \<Rightarrow> users_action \<Rightarrow> users_page" where
  "users_step net st LoadUsers = loadUsers net st"
| "users_step net st CreateUser = createUser net st"
| "users_step net st UpdateUser = updateUser net st"
| "users_step net st (DeleteUser answer) = deleteUser net answer st"
| "users_step net st (TypeUsers i v) = setUsersInput i v st"

definition users_run :: "network \<Rightarrow> users_action list \<Rightarrow> users_page \<Rightarrow> users_page" where
  "users_run net acts st = foldl (users_step net) st acts"

section \<open>Notions used to state the properties\<close>

text \<open>
  The effects a handler run adds to the trace of the page it started from.
\<close>

definition newEffects :: "'a world_scheme \<Rightarrow> 'a world_scheme \<Rightarrow> effect list" where
  "newEffects st st' = drop (length (trace st)) (trace st')"

text \<open>
  The three ways a request whose body is read can fail: \<^verbatim>\<open>fetch\<close> rejects (network
  failure), the status is not 2xx, or the body does not parse.
\<close>

fun requestFailed :: "fetch_result \<Rightarrow> bool" where
  "requestFailed (Inl e) = True"
| "requestFailed (Inr resp) = (\<not> ok resp \<or> isl (jsonBody resp))"

text \<open>A 2xx response; the delete handlers read no body from it.\<close>

fun responseOk :: "fetch_result \<Rightarrow> bool" where
  "responseOk (Inl e) = False"
| "responseOk (Inr resp) = ok resp"

text \<open>
  The table body a \<^verbatim>\<open>GET\<close> with outcome \<open>res\<close> leaves behind, when a rendered value
  \<open>v\<close> gives the rows \<open>T v\<close> and the rows were \<open>old\<close> before.
\<close>

fun tableAfter :: "(json \<Rightarrow> jstring list) \<Rightarrow> fetch_result \<Rightarrow> jstring list \<Rightarrow> jstring list" where
  "tableAfter T (Inl e) old = old"
| "tableAfter T (Inr resp) old =
     (if ok resp then (case jsonBody resp of Inl e \<Rightarrow> old | Inr v \<Rightarrow> T v) else old)"

text \<open>The rows a \<^verbatim>\<open>forEach\<close> loop appends before its callback first throws.\<close>

fun renderedRows :: "(json \<Rightarrow> jserror + jstring) \<Rightarrow> json list \<Rightarrow> jstring list" where
  "renderedRows f [] = []"
| "renderedRows f (x # xs) = (case f x of Inl e \<Rightarrow> [] | Inr r \<Rightarrow> r # renderedRows f xs)"

fun firstError :: "(json \<Rightarrow> jserror + jstring) \<Rightarrow> json list \<Rightarrow> jserror option" where
  "firstError f [] = None"
| "firstError f (x # xs) = (case f x of Inl e \<Rightarrow> Some e | Inr r \<Rightarrow> firstError f xs)"

definition emptyBooksPage :: books_page where
  "emptyBooksPage =
     \<lparr>trace = [], bookTableBody = [], createTitle = [], createAuthor = [],
      updateId_books = [], updateTitle = [], updateAuthor = [], searchInput = []\<rparr>"

definition emptyUsersPage :: users_page where
  "emptyUsersPage =
     \<lparr>trace = [], userTableBody = [], createName = [], updateId_users = [],
      updateName = [], deleteId = []\<rparr>"

definition booksTableOf :: "json \<Rightarrow> jstring list" where
  "booksTableOf v = bookTableBody (snd (displayBooks v emptyBooksPage))"

definition usersTableOf :: "json \<Rightarrow> jstring list" where
  "usersTableOf v = userTableBody (snd (displayUsers v emptyUsersPage))"

definition booksDisplayError :: "json \<Rightarrow> jserror option" where
  "booksDisplayError v = fst (displayBooks v emptyBooksPage)"

definition usersDisplayError :: "json \<Rightarrow> jserror option" where
  "usersDisplayError v = fst (displayUsers v emptyUsersPage)"

text \<open>The values of all inputs of a page.\<close>

definition books_inputs :: "books_page \<Rightarrow> jstring \<times> jstring \<times> jstring \<times> jstring \<times> jstring \<times> jstring" where
  "books_inputs st =
     (createTitle st, createAuthor st, updateId_books st, updateTitle st, updateAuthor st,
      searchInput st)"

definition users_inputs :: "users_page \<Rightarrow> jstring \<times> jstring \<times> jstring \<times> jstring" where
  "users_inputs st = (createName st, updateId_users st, updateName st, deleteId st)"

text \<open>
  The records of the data model: a book is an object with an integer \<^verbatim>\<open>id\<close> and string
  \<^verbatim>\<open>title\<close> and \<^verbatim>\<open>author\<close>; a user is an object with an integer \<^verbatim>\<open>id\<close> and a string
  \<^verbatim>\<open>name\<close>.
\<close>

definition hasNumber :: "string \<Rightarrow> json \<Rightarrow> bool" where
  "hasNumber key v = (case getProp key v of Inr (Some (JNum n)) \<Rightarrow> True | _ \<Rightarrow> False)"

definition hasString :: "string \<Rightarrow> json \<Rightarrow> bool" where
  "hasString key v = (case getProp key v of Inr (Some (JStr s)) \<Rightarrow> True | _ \<Rightarrow> False)"

definition isBook :: "json \<Rightarrow> bool" where
  "isBook v \<longleftrightarrow> hasNumber ''id'' v \<and> hasString ''title'' v \<and> hasString ''author'' v"

definition isUser :: "json \<Rightarrow> bool" where
  "isUser v \<longleftrightarrow> hasNumber ''id'' v \<and> hasString ''name'' v"

text \<open>A string is well formed when every surrogate code unit in it is part of a pair.\<close>

fun isWellFormed :: "jstring \<Rightarrow> bool" where
  "isWellFormed [] = True"
| "isWellFormed [c] = (\<not> isLeadSurrogate c \<and> \<not> isTrailSurrogate c)"
| "isWellFormed (c # d # ds) =
     (if isLeadSurrogate c then isTrailSurrogate d \<and> isWellFormed ds
      else \<not> isTrailSurrogate c \<and> isWellFormed (d # ds))"

text \<open>
  A successful \<^verbatim>\<open>GET\<close> among some effects, to a URL satisfying \<open>U\<close>, whose parsed body
  renders (through \<open>T\<close>) to the rows \<open>tb\<close>.
\<close>

fun rendersFrom :: "(jstring \<Rightarrow> bool) \<Rightarrow> (json \<Rightarrow> jstring list) \<Rightarrow> jstring list \<Rightarrow> effect \<Rightarrow> bool" where
  "rendersFrom U T tb (Fetch req (Inr resp)) =
     (httpMethod req = GET \<and> U (url req) \<and> ok resp \<and>
      (case jsonBody resp of Inl e \<Rightarrow> False | Inr v \<Rightarrow> tb = T v))"
| "rendersFrom U T tb e = False"

definition isBooksGetUrl :: "jstring \<Rightarrow> bool" where
  "isBooksGetUrl u \<longleftrightarrow>
     u = API_URL_books \<or>
     take (length (API_URL_books @ lit ''?search='')) u = API_URL_books @ lit ''?search=''"

text \<open>
  The rows \<open>tb\<close> of a table that held \<open>old\<close> are accounted for by the effects \<open>new\<close>:
  either they are the old rows, or one of the effects is a successful \<^verbatim>\<open>GET\<close> whose body
  renders to them.
\<close>

definition accounted ::
  "(jstring \<Rightarrow> bool) \<Rightarrow> (json \<Rightarrow> jstring list) \<Rightarrow> jstring list \<Rightarrow> effect list \<Rightarrow> jstring list \<Rightarrow> bool" where
  "accounted U T old new tb \<longleftrightarrow> tb = old \<or> list_ex (rendersFrom U T tb) new"

text \<open>The validation each handler applies to its inputs, and the request it then sends.\<close>

definition createBook_valid :: "books_page \<Rightarrow> bool" where
  "createBook_valid st \<longleftrightarrow> trim (createTitle st) \<noteq> [] \<and> trim (createAuthor st) \<noteq> []"

definition createBook_request :: "books_page \<Rightarrow> request" where
  "createBook_request st =
     json_request POST API_URL_books
       (JObj [(lit ''title'', JStr (trim (createTitle st))),
              (lit ''author'', JStr (trim (createAuthor st)))])"

definition updateBook_valid :: "books_page \<Rightarrow> bool" where
  "updateBook_valid st \<longleftrightarrow>
     truthyNumber (parseInt (updateId_books st)) \<and> trim (updateTitle st) \<noteq> [] \<and>
     trim (updateAuthor st) \<noteq> []"

definition updateBook_request :: "books_page \<Rightarrow> request" where
  "updateBook_request st =
     json_request PUT (API_URL_books @ lit ''/'' @ numberToString (parseInt (updateId_books st)))
       (JObj [(lit ''title'', JStr (trim (updateTitle st))),
              (lit ''author'', JStr (trim (updateAuthor st)))])"

definition deleteHighestBook_request :: request where
  "deleteHighestBook_request = delete_request (API_URL_books @ lit ''/highest'')"

definition createUser_valid :: "users_page \<Rightarrow> bool" where
  "createUser_valid st \<longleftrightarrow> trim (createName st) \<noteq> []"

definition createUser_request :: "users_page \<Rightarrow> request" where
  "createUser_request st =
     json_request POST API_URL_users (JObj [(lit ''name'', JStr (trim (createName st)))])"

definition updateUser_valid :: "users_page \<Rightarrow> bool" where
  "updateUser_valid st \<longleftrightarrow>
     truthyNumber (parseInt (updateId_users st)) \<and> trim (updateName st) \<noteq> []"

definition updateUser_request :: "users_page \<Rightarrow> request" where
  "updateUser_request st =
     json_request PUT (API_URL_users @ lit ''/'' @ numberToString (parseInt (updateId_users st)))
       (JObj [(lit ''name'', JStr (trim (updateName st)))])"

definition deleteUser_valid :: "users_page \<Rightarrow> bool" where
  "deleteUser_valid st \<longleftrightarrow> truthyNumber (parseInt (deleteId st))"

definition deleteUser_request :: "users_page \<Rightarrow> request" where
  "deleteUser_request st =
     delete_request (API_URL_users @ lit ''/'' @ numberToString (parseInt (deleteId st)))"

section \<open>Example inputs\<close>

definition exampleBook :: json where
  "exampleBook =
     JObj [(lit ''id'', JNum 5), (lit ''title'', JStr (lit ''Dune'')),
           (lit ''author'', JStr (lit ''Herbert''))]"

definition secondBook :: json where
  "secondBook =
     JObj [(lit ''id'', JNum 6), (lit ''title'', JStr (lit ''Emma'')),
           (lit ''author'', JStr (lit ''Austen''))]"

definition exampleUser :: json where
  "exampleUser = JObj [(lit ''id'', JNum 1), (lit ''name'', JStr (lit ''Ada''))]"

text \<open>
  A books server that answers every \<^verbatim>\<open>GET\<close> with a list of one book and every other
  request with that book; the same for users; and a network that is down.
\<close>

definition booksServer :: network where
  "booksServer reqs =
     Inr \<lparr>ok = True,
          jsonBody = Inr (case rev reqs of
                            [] \<Rightarrow> JNull
                          | r # rs \<Rightarrow> if httpMethod r = GET then JArr [exampleBook] else exampleBook)\<rparr>"

definition usersServer :: network where
  "usersServer reqs =
     Inr \<lparr>ok = True,
          jsonBody = Inr (case rev reqs of
                            [] \<Rightarrow> JNull
                          | r # rs \<Rightarrow> if httpMethod r = GET then JArr [exampleUser] else exampleUser)\<rparr>"

definition networkDown :: network where
  "networkDown reqs = Inl (JsError TypeError (lit ''Failed to fetch''))"

definition filledBooksPage :: books_page where
  "filledBooksPage =
     \<lparr>trace = [], bookTableBody = [], createTitle = lit '' Dune '', createAuthor = lit ''Herbert'',
      updateId_books = lit ''5'', updateTitle = lit ''Dune'', updateAuthor = lit ''Frank Herbert'',
      searchInput = lit ''dune''\<rparr>"

definition filledUsersPage :: users_page where
  "filledUsersPage =
     \<lparr>trace = [], userTableBody = [], createName = lit ''Ada'', updateId_users = lit ''1'',
      updateName = lit ''Ada L'', deleteId = lit ''1''\<rparr>"

definition blankBooksPage :: books_page where
  "blankBooksPage =
     \<lparr>trace = [], bookTableBody = [lit ''<td>old</td>''], createTitle = lit ''   '',
      createAuthor = lit ''Herbert'', updateId_books = lit ''0'', updateTitle = lit ''Dune'',
      updateAuthor = lit ''Herbert'', searchInput = [0xD800]\<rparr>"

definition blankUsersPage :: users_page where
  "blankUsersPage =
     \<lparr>trace = [], userTableBody = [lit ''<td>old</td>''], createName = lit '' '',
      updateId_users = lit ''abc'', updateName = lit ''Ada'', deleteId = lit ''''\<rparr>"

text \<open>
  Pages that hold one old row and valid inputs, and servers that answer every request
  other than a \<^verbatim>\<open>GET\<close> with 2xx and the body \<^verbatim>\<open>null\<close>.
\<close>

definition staleBooksPage :: books_page where
  "staleBooksPage =
     \<lparr>trace = [], bookTableBody = [lit ''<td>old</td>''], createTitle = lit ''Emma'',
      createAuthor = lit ''Austen'', updateId_books = lit ''6'', updateTitle = lit ''Emma'',
      updateAuthor = lit ''Jane Austen'', searchInput = lit ''emma''\<rparr>"

definition staleUsersPage :: users_page where
  "staleUsersPage =
     \<lparr>trace = [], userTableBody = [lit ''<td>old</td>''], createName = lit ''Bob'',
      updateId_users = lit ''2'', updateName = lit ''Bob B'', deleteId = lit ''2''\<rparr>"

definition nullBooksServer :: network where
  "nullBooksServer reqs =
     Inr \<lparr>ok = True,
          jsonBody = Inr (case rev reqs of
                            [] \<Rightarrow> JNull
                          | r # rs \<Rightarrow> if httpMethod r = GET then JArr [exampleBook] else JNull)\<rparr>"

definition nullUsersServer :: network where
  "nullUsersServer reqs =
     Inr \<lparr>ok = True,
          jsonBody = Inr (case rev reqs of
                            [] \<Rightarrow> JNull
                          | r # rs \<Rightarrow> if httpMethod r = GET then JArr [exampleUser] else JNull)\<rparr>"

section \<open>Effects\<close>

text \<open>
  Every handler only appends to the trace. The lemmas below describe a handler through
  projections of the page it returns: the effects it added, the requests among them, the
  table body and the inputs.
\<close>

lemmas effects_defs = fetch_def alert_def console_log_def console_error_def confirm_def

lemma requestsOf_append: "requestsOf (xs @ ys) = requestsOf xs @ requestsOf ys"
  by (induction xs rule: requestsOf.induct) simp_all

section \<open>The renderers\<close>

text \<open>
  A renderer touches the table body only, and the rows it leaves depend on the rendered
  value alone.
\<close>

lemma forEachBook_eq:
  "forEachBook xs st =
     (firstError bookRow xs, st\<lparr>bookTableBody := bookTableBody st @ renderedRows bookRow xs\<rparr>)"
  by (induction xs arbitrary: st) (auto split: sum.splits)

lemma forEachUser_eq:
  "forEachUser xs st =
     (firstError userRow xs, st\<lparr>userTableBody := userTableBody st @ renderedRows userRow xs\<rparr>)"
  by (induction xs arbitrary: st) (auto split: sum.splits)

lemma booksTableOf_JArr: "booksTableOf (JArr xs) = renderedRows bookRow xs"
  by (simp add: booksTableOf_def displayBooks_def forEachBook_eq emptyBooksPage_def)

lemma usersTableOf_JArr: "usersTableOf (JArr xs) = renderedRows userRow xs"
  by (simp add: usersTableOf_def displayUsers_def forEachUser_eq emptyUsersPage_def)

lemma displayBooks_eq:
  "displayBooks v st = (booksDisplayError v, st\<lparr>bookTableBody := booksTableOf v\<rparr>)"
  by (cases v) (simp_all add: booksDisplayError_def booksTableOf_def displayBooks_def forEachBook_eq emptyBooksPage_def)

lemma displayUsers_eq:
  "displayUsers v st = (usersDisplayError v, st\<lparr>userTableBody := usersTableOf v\<rparr>)"
  by (cases v) (simp_all add: usersDisplayError_def usersTableOf_def displayUsers_def forEachUser_eq emptyUsersPage_def)

lemma displayBooks_table: "bookTableBody (snd (displayBooks v st)) = booksTableOf v"
  by (subst displayBooks_eq) simp

lemma displayUsers_table: "userTableBody (snd (displayUsers v st)) = usersTableOf v"
  by (subst displayUsers_eq) simp

lemma rows_all_rendered:
  "\<forall>x\<in>set xs. \<exists>r. f x = Inr r \<Longrightarrow>
   firstError f xs = None \<and> map f xs = map Inr (renderedRows f xs)"
  by (induction xs) auto

lemma interp_number: "hasNumber key v \<Longrightarrow> \<exists>s. interp v key = Inr s"
  by (auto simp: hasNumber_def interp_def split: sum.splits option.splits json.splits)

lemma interp_string: "hasString key v \<Longrightarrow> \<exists>s. interp v key = Inr s"
  by (auto simp: hasString_def interp_def split: sum.splits option.splits json.splits)

lemma bookRow_book: "isBook b \<Longrightarrow> \<exists>r. bookRow b = Inr r"
  unfolding isBook_def bookRow_def
  using interp_number[of "''id''" b] interp_string[of "''title''" b] interp_string[of "''author''" b]
  by auto

lemma userRow_user: "isUser u \<Longrightarrow> \<exists>r. userRow u = Inr r"
  unfolding isUser_def userRow_def
  using interp_number[of "''id''" u] interp_string[of "''name''" u]
  by auto

lemma displayBooks_records:
  assumes "\<forall>b\<in>set books. isBook b"
  shows "displayBooks (JArr books) st = (None, st\<lparr>bookTableBody := renderedRows bookRow books\<rparr>)"
    and "map bookRow books = map Inr (renderedRows bookRow books)"
proof -
  from assms have "\<forall>b\<in>set books. \<exists>r. bookRow b = Inr r" by (simp add: bookRow_book)
  from rows_all_rendered[OF this]
  show "displayBooks (JArr books) st = (None, st\<lparr>bookTableBody := renderedRows bookRow books\<rparr>)"
    and "map bookRow books = map Inr (renderedRows bookRow books)"
    by (simp_all add: displayBooks_def forEachBook_eq)
qed

lemma displayUsers_records:
  assumes "\<forall>u\<in>set users. isUser u"
  shows "displayUsers (JArr users) st = (None, st\<lparr>userTableBody := renderedRows userRow users\<rparr>)"
    and "map userRow users = map Inr (renderedRows userRow users)"
proof -
  from assms have "\<forall>u\<in>set users. \<exists>r. userRow u = Inr r" by (simp add: userRow_user)
  from rows_all_rendered[OF this]
  show "displayUsers (JArr users) st = (None, st\<lparr>userTableBody := renderedRows userRow users\<rparr>)"
    and "map userRow users = map Inr (renderedRows userRow users)"
    by (simp_all add: displayUsers_def forEachUser_eq)
qed

section \<open>The loaders\<close>

text \<open>
  A loader sends one \<^verbatim>\<open>GET\<close> to the collection endpoint, never touches an input, and
  leaves the table body that the outcome of the request determines.
\<close>

lemma loadBooks_trace: "trace (loadBooks net st) = trace st @ newEffects st (loadBooks net st)"
  by (simp add: newEffects_def loadBooks_def loadBooks_catch_def effects_defs Let_def displayBooks_eq
      split: sum.splits option.splits)

lemma loadBooks_new_requests:
  "requestsOf (newEffects st (loadBooks net st)) = [get_request API_URL_books]"
  by (simp add: newEffects_def loadBooks_def loadBooks_catch_def effects_defs Let_def displayBooks_eq
      split: sum.splits option.splits)

lemma loadBooks_inputs:
  "createTitle (loadBooks net st) = createTitle st"
  "createAuthor (loadBooks net st) = createAuthor st"
  "updateId_books (loadBooks net st) = updateId_books st"
  "updateTitle (loadBooks net st) = updateTitle st"
  "updateAuthor (loadBooks net st) = updateAuthor st"
  "searchInput (loadBooks net st) = searchInput st"
  by (simp_all add: loadBooks_def loadBooks_catch_def effects_defs Let_def displayBooks_eq
      split: sum.splits option.splits)

lemma loadBooks_table:
  "bookTableBody (loadBooks net st) =
     tableAfter booksTableOf (net (requestsOf (trace st) @ [get_request API_URL_books]))
       (bookTableBody st)"
  by (simp add: loadBooks_def loadBooks_catch_def effects_defs Let_def displayBooks_eq
      split: sum.splits option.splits)

lemma loadBooks_failure:
  assumes "requestFailed (net (requestsOf (trace st) @ [get_request API_URL_books]))"
  shows "\<exists>e. loadBooks net st =
     st\<lparr>trace := trace st @
        [Fetch (get_request API_URL_books)
           (net (requestsOf (trace st) @ [get_request API_URL_books])),
         ConsoleError [CStr (lit ''Error loading books:''), CErr e],
         Alert (lit ''Failed to load books'')]\<rparr>"
  using assms
  by (cases "net (requestsOf (trace st) @ [get_request API_URL_books])")
     (auto simp: loadBooks_def loadBooks_catch_def effects_defs Let_def isl_def split: sum.splits)

lemma loadUsers_trace: "trace (loadUsers net st) = trace st @ newEffects st (loadUsers net st)"
  by (simp add: newEffects_def loadUsers_def loadUsers_catch_def effects_defs Let_def displayUsers_eq
      split: sum.splits option.splits)

lemma loadUsers_new_requests:
  "requestsOf (newEffects st (loadUsers net st)) = [get_request API_URL_users]"
  by (simp add: newEffects_def loadUsers_def loadUsers_catch_def effects_defs Let_def displayUsers_eq
      split: sum.splits option.splits)

lemma loadUsers_inputs:
  "createName (loadUsers net st) = createName st"
  "updateId_users (loadUsers net st) = updateId_users st"
  "updateName (loadUsers net st) = updateName st"
  "deleteId (loadUsers net st) = deleteId st"
  by (simp_all add: loadUsers_def loadUsers_catch_def effects_defs Let_def displayUsers_eq
      split: sum.splits option.splits)

lemma loadUsers_table:
  "userTableBody (loadUsers net st) =
     tableAfter usersTableOf (net (requestsOf (trace st) @ [get_request API_URL_users]))
       (userTableBody st)"
  by (simp add: loadUsers_def loadUsers_catch_def effects_defs Let_def displayUsers_eq
      split: sum.splits option.splits)

lemma loadUsers_failure:
  assumes "requestFailed (net (requestsOf (trace st) @ [get_request API_URL_users]))"
  shows "\<exists>e. loadUsers net st =
     st\<lparr>trace := trace st @
        [Fetch (get_request API_URL_users)
           (net (requestsOf (trace st) @ [get_request API_URL_users])),
         ConsoleError [CStr (lit ''Error loading users:''), CErr e],
         Alert (lit ''Failed to load users'')]\<rparr>"
  using assms
  by (cases "net (requestsOf (trace st) @ [get_request API_URL_users])")
     (auto simp: loadUsers_def loadUsers_catch_def effects_defs Let_def isl_def split: sum.splits)

section \<open>Accounting for the rows of a table\<close>

lemma accounted_Nil: "accounted U T old [] tb \<longleftrightarrow> tb = old"
  by (simp add: accounted_def)

lemma accounted_Cons:
  "accounted U T old (e # new) tb \<longleftrightarrow> rendersFrom U T tb e \<or> accounted U T old new tb"
  by (auto simp: accounted_def)

lemma accounted_append:
  "accounted U T old (xs @ ys) tb \<longleftrightarrow> accounted U T old xs tb \<or> accounted U T old ys tb"
  by (auto simp: accounted_def list_ex_iff)

lemma accounted_trans:
  "accounted U T old xs mid \<Longrightarrow> accounted U T mid ys tb \<Longrightarrow> accounted U T old (xs @ ys) tb"
  by (auto simp: accounted_def list_ex_iff)

lemma loadBooks_accounted:
  "bookTableBody st = old \<Longrightarrow>
   accounted isBooksGetUrl booksTableOf old (newEffects st (loadBooks net st))
     (bookTableBody (loadBooks net st))"
  by (auto simp: accounted_def newEffects_def loadBooks_def loadBooks_catch_def effects_defs Let_def
      displayBooks_eq get_request_def isBooksGetUrl_def split: sum.splits option.splits)

lemmas books_simps =
  loadBooks_trace loadBooks_inputs loadBooks_new_requests requestsOf_append

lemmas books_accounted_simps =
  accounted_Nil accounted_Cons accounted_append loadBooks_accounted
  json_request_def get_request_def delete_request_def

lemmas createBook_defs =
  createBook_def createBook_catch_def createBook_valid_def createBook_request_def effects_defs Let_def

section \<open>createBook\<close>

lemma createBook_invalid:
  "\<not> createBook_valid st \<Longrightarrow>
   createBook net st =
     st\<lparr>trace := trace st @ [Alert (lit ''Please enter both a book title and an author name'')]\<rparr>"
  by (auto simp: createBook_defs)

lemma createBook_trace: "trace (createBook net st) = trace st @ newEffects st (createBook net st)"
  unfolding newEffects_def
  by (simp add: createBook_defs books_simps split: sum.splits prod.splits)

lemma createBook_accounted:
  "accounted isBooksGetUrl booksTableOf (bookTableBody st) (newEffects st (createBook net st))
     (bookTableBody (createBook net st))"
  unfolding newEffects_def
  by (simp add: createBook_defs books_simps books_accounted_simps split: sum.splits prod.splits)

lemma createBook_requests:
  "createBook_valid st \<Longrightarrow>
   \<not> requestFailed (net (requestsOf (trace st) @ [createBook_request st])) \<Longrightarrow>
   requestsOf (newEffects st (createBook net st)) = [createBook_request st, get_request API_URL_books]"
  unfolding newEffects_def
  by (auto simp: createBook_defs books_simps split: sum.splits prod.splits)

lemma createBook_table:
  "createBook_valid st \<Longrightarrow>
   \<not> requestFailed (net (requestsOf (trace st) @ [createBook_request st])) \<Longrightarrow>
   bookTableBody (createBook net st) =
     tableAfter booksTableOf
       (net (requestsOf (trace st) @ [createBook_request st, get_request API_URL_books]))
       (bookTableBody st)"
  by (auto simp: createBook_defs books_simps loadBooks_table split: sum.splits prod.splits)

lemma createBook_inputs:
  "books_inputs (createBook net st) =
     (if createBook_valid st \<and>
         \<not> requestFailed (net (requestsOf (trace st) @ [createBook_request st]))
      then ([], [], updateId_books st, updateTitle st, updateAuthor st, searchInput st)
      else books_inputs st)"
  by (auto simp: books_inputs_def createBook_defs books_simps split: sum.splits prod.splits)

section \<open>updateBook\<close>

lemmas updateBook_defs =
  updateBook_def updateBook_catch_def updateBook_valid_def updateBook_request_def effects_defs Let_def

lemma updateBook_invalid:
  "\<not> updateBook_valid st \<Longrightarrow>
   updateBook net st =
     st\<lparr>trace := trace st @ [Alert (lit ''Please enter the Book ID, new title, and new author'')]\<rparr>"
  by (auto simp: updateBook_defs)

lemma updateBook_first:
  "updateBook_valid st \<Longrightarrow>
   take 1 (newEffects st (updateBook net st)) =
     [Fetch (updateBook_request st) (net (requestsOf (trace st) @ [updateBook_request st]))]"
  unfolding newEffects_def
  by (auto simp: updateBook_defs books_simps split: sum.splits prod.splits)

lemma updateBook_trace: "trace (updateBook net st) = trace st @ newEffects st (updateBook net st)"
  unfolding newEffects_def
  by (simp add: updateBook_defs books_simps split: sum.splits prod.splits)

lemma updateBook_accounted:
  "accounted isBooksGetUrl booksTableOf (bookTableBody st) (newEffects st (updateBook net st))
     (bookTableBody (updateBook net st))"
  unfolding newEffects_def
  by (simp add: updateBook_defs books_simps books_accounted_simps split: sum.splits prod.splits)

lemma updateBook_requests:
  "updateBook_valid st \<Longrightarrow>
   \<not> requestFailed (net (requestsOf (trace st) @ [updateBook_request st])) \<Longrightarrow>
   requestsOf (newEffects st (updateBook net st)) = [updateBook_request st, get_request API_URL_books]"
  unfolding newEffects_def
  by (auto simp: updateBook_defs books_simps split: sum.splits prod.splits)

lemma updateBook_table:
  "updateBook_valid st \<Longrightarrow>
   \<not> requestFailed (net (requestsOf (trace st) @ [updateBook_request st])) \<Longrightarrow>
   bookTableBody (updateBook net st) =
     tableAfter booksTableOf
       (net (requestsOf (trace st) @ [updateBook_request st, get_request API_URL_books]))
       (bookTableBody st)"
  by (auto simp: updateBook_defs books_simps loadBooks_table split: sum.splits prod.splits)

lemma updateBook_inputs:
  "books_inputs (updateBook net st) =
     (if updateBook_valid st \<and>
         \<not> requestFailed (net (requestsOf (trace st) @ [updateBook_request st]))
      then (createTitle st, createAuthor st, [], [], [], searchInput st)
      else books_inputs st)"
  by (auto simp: books_inputs_def updateBook_defs books_simps split: sum.splits prod.splits)

section \<open>deleteHighestBook\<close>

lemmas deleteHighestBook_defs =
  deleteHighestBook_def deleteHighestBook_catch_def deleteHighestBook_request_def effects_defs Let_def

lemma deleteHighestBook_declined:
  "deleteHighestBook net False st =
     st\<lparr>trace := trace st @
        [Confirm (lit ''Are you sure you want to delete the book with the highest ID?'') False]\<rparr>"
  by (simp add: deleteHighestBook_defs)

lemma deleteHighestBook_trace:
  "trace (deleteHighestBook net answer st) = trace st @ newEffects st (deleteHighestBook net answer st)"
  unfolding newEffects_def
  by (simp add: deleteHighestBook_defs books_simps split: sum.splits prod.splits bool.splits)

lemma deleteHighestBook_accounted:
  "accounted isBooksGetUrl booksTableOf (bookTableBody st)
     (newEffects st (deleteHighestBook net answer st))
     (bookTableBody (deleteHighestBook net answer st))"
  unfolding newEffects_def
  by (simp add: deleteHighestBook_defs books_simps books_accounted_simps split: sum.splits prod.splits bool.splits)

lemma deleteHighestBook_requests:
  "responseOk (net (requestsOf (trace st) @ [deleteHighestBook_request])) \<Longrightarrow>
   requestsOf (newEffects st (deleteHighestBook net True st)) =
     [deleteHighestBook_request, get_request API_URL_books]"
  unfolding newEffects_def
  by (auto simp: deleteHighestBook_defs books_simps split: sum.splits prod.splits bool.splits)

lemma deleteHighestBook_table:
  "responseOk (net (requestsOf (trace st) @ [deleteHighestBook_request])) \<Longrightarrow>
   bookTableBody (deleteHighestBook net True st) =
     tableAfter booksTableOf
       (net (requestsOf (trace st) @ [deleteHighestBook_request, get_request API_URL_books]))
       (bookTableBody st)"
  by (auto simp: deleteHighestBook_defs books_simps loadBooks_table split: sum.splits prod.splits bool.splits)

lemma deleteHighestBook_inputs:
  "books_inputs (deleteHighestBook net answer st) = books_inputs st"
  by (auto simp: books_inputs_def deleteHighestBook_defs books_simps split: sum.splits prod.splits bool.splits)

section \<open>searchBooks and clearSearch\<close>

lemmas searchBooks_defs = searchBooks_def searchBooks_catch_def effects_defs Let_def

lemma lead_not_unreserved: "isLeadSurrogate c \<Longrightarrow> \<not> isUnreserved c"
  by (auto simp: isLeadSurrogate_def isUnreserved_def word_le_nat_alt)

lemma lead_not_trail: "isLeadSurrogate c \<Longrightarrow> \<not> isTrailSurrogate c"
  by (auto simp: isLeadSurrogate_def isTrailSurrogate_def word_le_nat_alt)

lemma encodeURIComponent_wellFormed:
  "isWellFormed q \<Longrightarrow> \<exists>enc. encodeURIComponent q = Inr enc"
proof (induction q rule: isWellFormed.induct)
  case 1
  show ?case by simp
next
  case (2 c)
  then show ?case by simp
next
  case (3 c d ds)
  show ?case
  proof (cases "isLeadSurrogate c")
    case True
    with 3 obtain r where "encodeURIComponent ds = Inr r" by auto
    with True 3 show ?thesis by (simp add: lead_not_unreserved lead_not_trail)
  next
    case False
    with 3 obtain r where "encodeURIComponent (d # ds) = Inr r" by auto
    with False 3 show ?thesis by (simp del: encodeURIComponent.simps(2) add: encodeURIComponent.simps(2)[of c])
  qed
qed

lemma searchBooks_empty:
  "trim (searchInput st) = [] \<Longrightarrow>
   searchBooks net st = st\<lparr>trace := trace st @ [Alert (lit ''Please enter a search term'')]\<rparr>"
  by (simp add: searchBooks_defs)

lemma searchBooks_malformed:
  "trim (searchInput st) \<noteq> [] \<Longrightarrow> encodeURIComponent (trim (searchInput st)) = Inl e \<Longrightarrow>
   searchBooks net st =
     st\<lparr>trace := trace st @
        [ConsoleError [CStr (lit ''Error searching books:''), CErr e],
         Alert (lit ''Search failed: '' @ message e)]\<rparr>"
  by (simp add: searchBooks_defs)

lemma searchBooks_trace: "trace (searchBooks net st) = trace st @ newEffects st (searchBooks net st)"
  unfolding newEffects_def
  by (simp add: searchBooks_defs displayBooks_eq split: sum.splits prod.splits option.splits)

lemma searchBooks_accounted:
  "accounted isBooksGetUrl booksTableOf (bookTableBody st) (newEffects st (searchBooks net st))
     (bookTableBody (searchBooks net st))"
  unfolding newEffects_def
  by (simp add: searchBooks_defs displayBooks_eq books_accounted_simps isBooksGetUrl_def
      split: sum.splits prod.splits option.splits)

lemma searchBooks_requests:
  "trim (searchInput st) \<noteq> [] \<Longrightarrow> encodeURIComponent (trim (searchInput st)) = Inr enc \<Longrightarrow>
   requestsOf (newEffects st (searchBooks net st)) =
     [get_request (API_URL_books @ lit ''?search='' @ enc)]"
  unfolding newEffects_def
  by (simp add: searchBooks_defs displayBooks_eq requestsOf_append
      split: sum.splits prod.splits option.splits)

lemma searchBooks_table:
  "trim (searchInput st) \<noteq> [] \<Longrightarrow> encodeURIComponent (trim (searchInput st)) = Inr enc \<Longrightarrow>
   bookTableBody (searchBooks net st) =
     tableAfter booksTableOf
       (net (requestsOf (trace st) @ [get_request (API_URL_books @ lit ''?search='' @ enc)]))
       (bookTableBody st)"
  by (simp add: searchBooks_defs displayBooks_eq split: sum.splits prod.splits option.splits)

lemma searchBooks_inputs: "books_inputs (searchBooks net st) = books_inputs st"
  by (simp add: books_inputs_def searchBooks_defs displayBooks_eq
      split: sum.splits prod.splits option.splits)

lemma clearSearch_trace: "trace (clearSearch net st) = trace st @ newEffects st (clearSearch net st)"
  using loadBooks_trace[of net "st\<lparr>searchInput := []\<rparr>"]
  by (simp add: clearSearch_def newEffects_def)

lemma clearSearch_accounted:
  "accounted isBooksGetUrl booksTableOf (bookTableBody st) (newEffects st (clearSearch net st))
     (bookTableBody (clearSearch net st))"
  using loadBooks_accounted[of "st\<lparr>searchInput := []\<rparr>" "bookTableBody st" net]
  by (simp add: clearSearch_def newEffects_def)

lemma clearSearch_requests:
  "requestsOf (newEffects st (clearSearch net st)) = [get_request API_URL_books]"
  using loadBooks_new_requests[of "st\<lparr>searchInput := []\<rparr>" net]
  by (simp add: clearSearch_def newEffects_def)

lemma clearSearch_table:
  "bookTableBody (clearSearch net st) =
     tableAfter booksTableOf (net (requestsOf (trace st) @ [get_request API_URL_books]))
       (bookTableBody st)"
  by (simp add: clearSearch_def loadBooks_table)

lemma clearSearch_inputs:
  "books_inputs (clearSearch net st) =
     (createTitle st, createAuthor st, updateId_books st, updateTitle st, updateAuthor st, [])"
  by (simp add: clearSearch_def books_inputs_def loadBooks_inputs)

section \<open>The encoding of a query\<close>

text \<open>
  Whatever \<^verbatim>\<open>encodeURIComponent\<close> returns is made of unreserved characters and percent
  signs only.
\<close>

lemma hexDigit_unreserved: "d < 16 \<Longrightarrow> isUnreserved (hexDigit d)"
proof -
  assume "d < 16"
  then have "d = 0 \<or> d = 1 \<or> d = 2 \<or> d = 3 \<or> d = 4 \<or> d = 5 \<or> d = 6 \<or> d = 7 \<or> d = 8 \<or>
      d = 9 \<or> d = 10 \<or> d = 11 \<or> d = 12 \<or> d = 13 \<or> d = 14 \<or> d = 15" by arith
  then show ?thesis by (elim disjE) (simp_all add: hexDigit_def isUnreserved_def)
qed

lemma percentEscape_chars:
  "\<forall>b\<in>set octets. b < 256 \<Longrightarrow> \<forall>c\<in>set (percentEscape octets). isUnreserved c \<or> c = 0x25"
  by (auto simp: percentEscape_def intro!: hexDigit_unreserved)

lemma utf8_octets: "cp < 0x110000 \<Longrightarrow> \<forall>b\<in>set (utf8 cp). b < 256"
  by (auto simp: utf8_def)

lemma codePoint_bound:
  "isLeadSurrogate c \<Longrightarrow> isTrailSurrogate d \<Longrightarrow> codePoint c d < 0x110000"
  by (auto simp: isLeadSurrogate_def isTrailSurrogate_def codePoint_def word_le_nat_alt)

lemma unat16_bound: "unat (c :: 16 word) < 0x110000"
  using unsigned_less[of c, where ?'a = nat] by simp

lemma encodeURIComponent_chars:
  "encodeURIComponent q = Inr enc \<Longrightarrow> \<forall>c\<in>set enc. isUnreserved c \<or> c = 0x25"
proof (induction q arbitrary: enc rule: encodeURIComponent.induct)
  case 1
  then show ?case by simp
next
  case (2 c cs)
  show ?case
  proof (cases "isUnreserved c")
    case True
    with 2 show ?thesis by (auto split: sum.splits)
  next
    case nu: False
    show ?thesis
    proof (cases "isTrailSurrogate c")
      case True
      with nu 2 show ?thesis by simp
    next
      case nt: False
      show ?thesis
      proof (cases "isLeadSurrogate c")
        case True
        with nu nt 2(4) obtain d ds r where
          cs: "cs = d # ds" and d: "isTrailSurrogate d" and r: "encodeURIComponent ds = Inr r"
          and enc: "enc = percentEscape (utf8 (codePoint c d)) @ r"
          by (auto split: list.splits if_splits sum.splits)
        from 2(2)[OF nu nt True cs d r] have "\<forall>c\<in>set r. isUnreserved c \<or> c = 0x25" .
        moreover have "\<forall>x\<in>set (percentEscape (utf8 (codePoint c d))). isUnreserved x \<or> x = 0x25"
          by (rule percentEscape_chars[OF utf8_octets[OF codePoint_bound[OF True d]]])
        ultimately show ?thesis unfolding enc by auto
      next
        case nl: False
        with nu nt 2(4) obtain r where r: "encodeURIComponent cs = Inr r"
          and enc: "enc = percentEscape (utf8 (unat c)) @ r"
          by (auto split: sum.splits)
        from 2(3)[OF nu nt nl r] have "\<forall>c\<in>set r. isUnreserved c \<or> c = 0x25" .
        moreover have "\<forall>x\<in>set (percentEscape (utf8 (unat c))). isUnreserved x \<or> x = 0x25"
          by (rule percentEscape_chars[OF utf8_octets[OF unat16_bound]])
        ultimately show ?thesis unfolding enc by auto
      qed
    qed
  qed
qed

section \<open>The handlers of the users client\<close>

lemma loadUsers_accounted:
  "userTableBody st = old \<Longrightarrow>
   accounted (\<lambda>u. u = API_URL_users) usersTableOf old (newEffects st (loadUsers net st))
     (userTableBody (loadUsers net st))"
  by (auto simp: accounted_def newEffects_def loadUsers_def loadUsers_catch_def effects_defs Let_def
      displayUsers_eq get_request_def split: sum.splits option.splits)

lemmas users_simps =
  loadUsers_trace loadUsers_inputs loadUsers_new_requests requestsOf_append

lemmas users_accounted_simps =
  accounted_Nil accounted_Cons accounted_append loadUsers_accounted
  json_request_def get_request_def delete_request_def

lemmas createUser_defs =
  createUser_def createUser_catch_def createUser_valid_def createUser_request_def effects_defs Let_def

lemma createUser_invalid:
  "\<not> createUser_valid st \<Longrightarrow>
   createUser net st = st\<lparr>trace := trace st @ [Alert (lit ''Please enter a user name'')]\<rparr>"
  by (auto simp: createUser_defs)

lemma createUser_trace: "trace (createUser net st) = trace st @ newEffects st (createUser net st)"
  unfolding newEffects_def
  by (simp add: createUser_defs users_simps split: sum.splits prod.splits)

lemma createUser_accounted:
  "accounted (\<lambda>u. u = API_URL_users) usersTableOf (userTableBody st)
     (newEffects st (createUser net st)) (userTableBody (createUser net st))"
  unfolding newEffects_def
  by (simp add: createUser_defs users_simps users_accounted_simps split: sum.splits prod.splits)

lemma createUser_requests:
  "createUser_valid st \<Longrightarrow>
   \<not> requestFailed (net (requestsOf (trace st) @ [createUser_request st])) \<Longrightarrow>
   requestsOf (newEffects st (createUser net st)) = [createUser_request st, get_request API_URL_users]"
  unfolding newEffects_def
  by (auto simp: createUser_defs users_simps split: sum.splits prod.splits)

lemma createUser_table:
  "createUser_valid st \<Longrightarrow>
   \<not> requestFailed (net (requestsOf (trace st) @ [createUser_request st])) \<Longrightarrow>
   userTableBody (createUser net st) =
     tableAfter usersTableOf
       (net (requestsOf (trace st) @ [createUser_request st, get_request API_URL_users]))
       (userTableBody st)"
  by (auto simp: createUser_defs users_simps loadUsers_table split: sum.splits prod.splits)

lemma createUser_inputs:
  "users_inputs (createUser net st) =
     (if createUser_valid st \<and>
         \<not> requestFailed (net (requestsOf (trace st) @ [createUser_request st]))
      then ([], updateId_users st, updateName st, deleteId st)
      else users_inputs st)"
  by (auto simp: users_inputs_def createUser_defs users_simps split: sum.splits prod.splits)

lemmas updateUser_defs =
  updateUser_def updateUser_catch_def updateUser_valid_def updateUser_request_def effects_defs Let_def

lemma updateUser_invalid:
  "\<not> updateUser_valid st \<Longrightarrow>
   updateUser net st =
     st\<lparr>trace := trace st @ [Alert (lit ''Please enter both User ID and new name'')]\<rparr>"
  by (auto simp: updateUser_defs)

lemma updateUser_first:
  "updateUser_valid st \<Longrightarrow>
   take 1 (newEffects st (updateUser net st)) =
     [Fetch (updateUser_request st) (net (requestsOf (trace st) @ [updateUser_request st]))]"
  unfolding newEffects_def
  by (auto simp: updateUser_defs users_simps split: sum.splits prod.splits)

lemma updateUser_trace: "trace (updateUser net st) = trace st @ newEffects st (updateUser net st)"
  unfolding newEffects_def
  by (simp add: updateUser_defs users_simps split: sum.splits prod.splits)

lemma updateUser_accounted:
  "accounted (\<lambda>u. u = API_URL_users) usersTableOf (userTableBody st)
     (newEffects st (updateUser net st)) (userTableBody (updateUser net st))"
  unfolding newEffects_def
  by (simp add: updateUser_defs users_simps users_accounted_simps split: sum.splits prod.splits)

lemma updateUser_requests:
  "updateUser_valid st \<Longrightarrow>
   \<not> requestFailed (net (requestsOf (trace st) @ [updateUser_request st])) \<Longrightarrow>
   requestsOf (newEffects st (updateUser net st)) = [updateUser_request st, get_request API_URL_users]"
  unfolding newEffects_def
  by (auto simp: updateUser_defs users_simps split: sum.splits prod.splits)

lemma updateUser_table:
  "updateUser_valid st \<Longrightarrow>
   \<not> requestFailed (net (requestsOf (trace st) @ [updateUser_request st])) \<Longrightarrow>
   userTableBody (updateUser net st) =
     tableAfter usersTableOf
       (net (requestsOf (trace st) @ [updateUser_request st, get_request API_URL_users]))
       (userTableBody st)"
  by (auto simp: updateUser_defs users_simps loadUsers_table split: sum.splits prod.splits)

lemma updateUser_inputs:
  "users_inputs (updateUser net st) =
     (if updateUser_valid st \<and>
         \<not> requestFailed (net (requestsOf (trace st) @ [updateUser_request st]))
      then (createName st, [], [], deleteId st)
      else users_inputs st)"
  by (auto simp: users_inputs_def updateUser_defs users_simps split: sum.splits prod.splits)

lemmas deleteUser_defs =
  deleteUser_def deleteUser_catch_def deleteUser_valid_def deleteUser_request_def effects_defs Let_def

lemma deleteUser_invalid:
  "\<not> deleteUser_valid st \<Longrightarrow>
   deleteUser net answer st = st\<lparr>trace := trace st @ [Alert (lit ''Please enter a User ID'')]\<rparr>"
  by (auto simp: deleteUser_defs)

lemma deleteUser_declined:
  "deleteUser_valid st \<Longrightarrow>
   deleteUser net False st =
     st\<lparr>trace := trace st @
        [Confirm (lit ''Are you sure you want to delete user ID '' @
                  numberToString (parseInt (deleteId st)) @ lit ''?'') False]\<rparr>"
  by (simp add: deleteUser_defs)

lemma deleteUser_trace:
  "trace (deleteUser net answer st) = trace st @ newEffects st (deleteUser net answer st)"
  unfolding newEffects_def
  by (simp add: deleteUser_defs users_simps split: sum.splits prod.splits bool.splits)

lemma deleteUser_accounted:
  "accounted (\<lambda>u. u = API_URL_users) usersTableOf (userTableBody st)
     (newEffects st (deleteUser net answer st)) (userTableBody (deleteUser net answer st))"
  unfolding newEffects_def
  by (simp add: deleteUser_defs users_simps users_accounted_simps
      split: sum.splits prod.splits bool.splits)

lemma deleteUser_requests:
  "deleteUser_valid st \<Longrightarrow>
   responseOk (net (requestsOf (trace st) @ [deleteUser_request st])) \<Longrightarrow>
   requestsOf (newEffects st (deleteUser net True st)) =
     [deleteUser_request st, get_request API_URL_users]"
  unfolding newEffects_def
  by (auto simp: deleteUser_defs users_simps split: sum.splits prod.splits bool.splits)

lemma deleteUser_table:
  "deleteUser_valid st \<Longrightarrow>
   responseOk (net (requestsOf (trace st) @ [deleteUser_request st])) \<Longrightarrow>
   userTableBody (deleteUser net True st) =
     tableAfter usersTableOf
       (net (requestsOf (trace st) @ [deleteUser_request st, get_request API_URL_users]))
       (userTableBody st)"
  by (auto simp: deleteUser_defs users_simps loadUsers_table split: sum.splits prod.splits bool.splits)

lemma deleteUser_inputs:
  "users_inputs (deleteUser net answer st) =
     (if deleteUser_valid st \<and> answer \<and>
         responseOk (net (requestsOf (trace st) @ [deleteUser_request st]))
      then (createName st, updateId_users st, updateName st, [])
      else users_inputs st)"
  by (auto simp: users_inputs_def deleteUser_defs users_simps
      split: sum.splits prod.splits bool.splits)

section \<open>Runs\<close>

text \<open>
  Over a whole run the trace only grows, and the final table body is accounted for by the
  effects of the run: by induction on the list of actions.
\<close>

lemma newEffects_trans:
  "trace st1 = trace st @ n1 \<Longrightarrow> trace st2 = trace st1 @ n2 \<Longrightarrow> newEffects st st2 = n1 @ n2"
  by (simp add: newEffects_def)

lemma books_step_trace:
  "trace (books_step net st a) = trace st @ newEffects st (books_step net st a)"
proof (cases a)
  case (TypeBooks i v)
  then show ?thesis by (cases i) (simp_all add: newEffects_def)
qed (simp_all add: loadBooks_trace createBook_trace updateBook_trace deleteHighestBook_trace
      searchBooks_trace clearSearch_trace)

lemma books_step_accounted:
  "accounted isBooksGetUrl booksTableOf (bookTableBody st) (newEffects st (books_step net st a))
     (bookTableBody (books_step net st a))"
proof (cases a)
  case (TypeBooks i v)
  then show ?thesis by (cases i) (simp_all add: newEffects_def accounted_def)
qed (simp_all add: loadBooks_accounted createBook_accounted updateBook_accounted
      deleteHighestBook_accounted searchBooks_accounted clearSearch_accounted)

lemma books_run_accounted:
  "trace (books_run net acts st) = trace st @ newEffects st (books_run net acts st) \<and>
   accounted isBooksGetUrl booksTableOf (bookTableBody st) (newEffects st (books_run net acts st))
     (bookTableBody (books_run net acts st))"
proof (induction acts arbitrary: st)
  case Nil
  show ?case by (simp add: books_run_def newEffects_def accounted_def)
next
  case (Cons a acts)
  let ?s1 = "books_step net st a"
  let ?s2 = "books_run net acts ?s1"
  have run: "books_run net (a # acts) st = ?s2" by (simp add: books_run_def)
  have t1: "trace ?s1 = trace st @ newEffects st ?s1" by (rule books_step_trace)
  have t2: "trace ?s2 = trace ?s1 @ newEffects ?s1 ?s2" using Cons.IH[of ?s1] by simp
  have n: "newEffects st ?s2 = newEffects st ?s1 @ newEffects ?s1 ?s2"
    by (rule newEffects_trans[OF t1 t2])
  have a1: "accounted isBooksGetUrl booksTableOf (bookTableBody st) (newEffects st ?s1)
              (bookTableBody ?s1)" by (rule books_step_accounted)
  have a2: "accounted isBooksGetUrl booksTableOf (bookTableBody ?s1) (newEffects ?s1 ?s2)
              (bookTableBody ?s2)" using Cons.IH[of ?s1] by simp
  have "trace ?s2 = trace st @ newEffects st ?s2" using t1 t2 n by simp
  moreover have "accounted isBooksGetUrl booksTableOf (bookTableBody st) (newEffects st ?s2)
              (bookTableBody ?s2)" unfolding n by (rule accounted_trans[OF a1 a2])
  ultimately show ?case unfolding run by simp
qed

lemma users_step_trace:
  "trace (users_step net st a) = trace st @ newEffects st (users_step net st a)"
proof (cases a)
  case (TypeUsers i v)
  then show ?thesis by (cases i) (simp_all add: newEffects_def)
qed (simp_all add: loadUsers_trace createUser_trace updateUser_trace deleteUser_trace)

lemma users_step_accounted:
  "accounted (\<lambda>u. u = API_URL_users) usersTableOf (userTableBody st)
     (newEffects st (users_step net st a)) (userTableBody (users_step net st a))"
proof (cases a)
  case (TypeUsers i v)
  then show ?thesis by (cases i) (simp_all add: newEffects_def accounted_def)
qed (simp_all add: loadUsers_accounted createUser_accounted updateUser_accounted
      deleteUser_accounted)

lemma users_run_accounted:
  "trace (users_run net acts st) = trace st @ newEffects st (users_run net acts st) \<and>
   accounted (\<lambda>u. u = API_URL_users) usersTableOf (userTableBody st)
     (newEffects st (users_run net acts st)) (userTableBody (users_run net acts st))"
proof (induction acts arbitrary: st)
  case Nil
  show ?case by (simp add: users_run_def newEffects_def accounted_def)
next
  case (Cons a acts)
  let ?s1 = "users_step net st a"
  let ?s2 = "users_run net acts ?s1"
  have run: "users_run net (a # acts) st = ?s2" by (simp add: users_run_def)
  have t1: "trace ?s1 = trace st @ newEffects st ?s1" by (rule users_step_trace)
  have t2: "trace ?s2 = trace ?s1 @ newEffects ?s1 ?s2" using Cons.IH[of ?s1] by simp
  have n: "newEffects st ?s2 = newEffects st ?s1 @ newEffects ?s1 ?s2"
    by (rule newEffects_trans[OF t1 t2])
  have a1: "accounted (\<lambda>u. u = API_URL_users) usersTableOf (userTableBody st) (newEffects st ?s1)
              (userTableBody ?s1)" by (rule users_step_accounted)
  have a2: "accounted (\<lambda>u. u = API_URL_users) usersTableOf (userTableBody ?s1) (newEffects ?s1 ?s2)
              (userTableBody ?s2)" using Cons.IH[of ?s1] by simp
  have "trace ?s2 = trace st @ newEffects st ?s2" using t1 t2 n by simp
  moreover have "accounted (\<lambda>u. u = API_URL_users) usersTableOf (userTableBody st)
              (newEffects st ?s2) (userTableBody ?s2)" unfolding n by (rule accounted_trans[OF a1 a2])
  ultimately show ?case unfolding run by simp
qed

section \<open>Evaluating the examples\<close>

lemmas eval_defs =
  lit_def trim_def trimStart_def isWhiteSpace_def parseInt_def isRadixDigit_def mathInt_def
  filledBooksPage_def filledUsersPage_def blankBooksPage_def blankUsersPage_def
  booksServer_def usersServer_def networkDown_def exampleBook_def secondBook_def exampleUser_def
  API_URL_books_def API_URL_users_def get_request_def json_request_def delete_request_def

lemma bookRow_exampleBook:
  "bookRow exampleBook =
     Inr (lit ''\<newline>            <td>5</td>\<newline>            <td>Dune</td>\<newline>            <td>Herbert</td>\<newline>        '')"
  by (simp add: bookRow_def interp_def eval_defs)

lemma bookRow_secondBook:
  "bookRow secondBook =
     Inr (lit ''\<newline>            <td>6</td>\<newline>            <td>Emma</td>\<newline>            <td>Austen</td>\<newline>        '')"
  by (simp add: bookRow_def interp_def eval_defs)

lemma userRow_exampleUser:
  "userRow exampleUser =
     Inr (lit ''\<newline>            <td>1</td>\<newline>            <td>Ada</td>\<newline>        '')"
  by (simp add: userRow_def interp_def eval_defs)

lemma isBook_examples: "isBook exampleBook" "isBook secondBook"
  by (simp_all add: isBook_def hasNumber_def hasString_def eval_defs)

lemma isUser_example: "isUser exampleUser"
  by (simp add: isUser_def hasNumber_def hasString_def eval_defs)

lemma valid_examples:
  "createBook_valid filledBooksPage" "updateBook_valid filledBooksPage"
  "createUser_valid filledUsersPage" "updateUser_valid filledUsersPage"
  "deleteUser_valid filledUsersPage"
  "\<not> createBook_valid blankBooksPage" "\<not> updateBook_valid blankBooksPage"
  "\<not> createUser_valid blankUsersPage" "\<not> updateUser_valid blankUsersPage"
  "\<not> deleteUser_valid blankUsersPage"
  by (simp_all add: createBook_valid_def updateBook_valid_def createUser_valid_def
      updateUser_valid_def deleteUser_valid_def eval_defs)

lemma server_examples:
  "\<not> requestFailed (booksServer (reqs @ [r]))" "responseOk (booksServer (reqs @ [r]))"
  "\<not> requestFailed (usersServer (reqs @ [r]))" "responseOk (usersServer (reqs @ [r]))"
  "requestFailed (networkDown reqs)" "\<not> responseOk (networkDown reqs)"
  by (simp_all add: booksServer_def usersServer_def networkDown_def)

lemma tables_of_examples:
  "booksTableOf (JArr [exampleBook]) =
     [lit ''\<newline>            <td>5</td>\<newline>            <td>Dune</td>\<newline>            <td>Herbert</td>\<newline>        '']"
  "usersTableOf (JArr [exampleUser]) =
     [lit ''\<newline>            <td>1</td>\<newline>            <td>Ada</td>\<newline>        '']"
  by (simp_all add: booksTableOf_JArr usersTableOf_JArr bookRow_exampleBook userRow_exampleUser)

lemma server_get_examples:
  "booksServer (reqs @ [get_request u]) = Inr \<lparr>ok = True, jsonBody = Inr (JArr [exampleBook])\<rparr>"
  "usersServer (reqs @ [get_request u]) = Inr \<lparr>ok = True, jsonBody = Inr (JArr [exampleUser])\<rparr>"
  by (simp_all add: booksServer_def usersServer_def get_request_def)

lemma rendersFrom_iff:
  "rendersFrom U T tb e \<longleftrightarrow>
     (\<exists>req resp v. e = Fetch req (Inr resp) \<and> httpMethod req = GET \<and> U (url req) \<and> ok resp \<and>
        jsonBody resp = Inr v \<and> tb = T v)"
  by (cases "(U, T, tb, e)" rule: rendersFrom.cases) (auto split: sum.splits)

lemma accounted_iff:
  "accounted U T old new tb \<longleftrightarrow>
     tb = old \<or>
     (\<exists>req resp v. Fetch req (Inr resp) \<in> set new \<and> httpMethod req = GET \<and> U (url req) \<and>
        ok resp \<and> jsonBody resp = Inr v \<and> tb = T v)"
  unfolding accounted_def list_ex_iff rendersFrom_iff by blast

lemma isBooksGetUrl_iff:
  "isBooksGetUrl u \<longleftrightarrow> u = API_URL_books \<or> (\<exists>q. u = API_URL_books @ lit ''?search='' @ q)"
proof
  assume "isBooksGetUrl u"
  then consider "u = API_URL_books"
    | "take (length (API_URL_books @ lit ''?search='')) u = API_URL_books @ lit ''?search=''"
    by (auto simp: isBooksGetUrl_def)
  then show "u = API_URL_books \<or> (\<exists>q. u = API_URL_books @ lit ''?search='' @ q)"
  proof cases
    case 1
    then show ?thesis by simp
  next
    case 2
    have "u = take (length (API_URL_books @ lit ''?search='')) u @
              drop (length (API_URL_books @ lit ''?search='')) u" by simp
    with 2 have "u = API_URL_books @ lit ''?search='' @
              drop (length (API_URL_books @ lit ''?search='')) u" by simp
    then show ?thesis by blast
  qed
next
  assume "u = API_URL_books \<or> (\<exists>q. u = API_URL_books @ lit ''?search='' @ q)"
  then show "isBooksGetUrl u" by (auto simp: isBooksGetUrl_def)
qed

section \<open>What a run leaves in the table\<close>

text \<open>
  The table body after a run is the one before it, or what the renderer left for the body
  of a successful \<^verbatim>\<open>GET\<close> of the run. A renderer that returns without error was given
  an array and left one row per element.
\<close>

lemma books_run_table:
  "bookTableBody (books_run net acts st) = bookTableBody st \<or>
   (\<exists>req resp v.
      Fetch req (Inr resp) \<in> set (newEffects st (books_run net acts st)) \<and>
      httpMethod req = GET \<and>
      (url req = API_URL_books \<or> (\<exists>q. url req = API_URL_books @ lit ''?search='' @ q)) \<and>
      ok resp \<and> jsonBody resp = Inr v \<and>
      bookTableBody (books_run net acts st) = booksTableOf v)"
  using books_run_accounted[of net acts st]
  unfolding accounted_iff isBooksGetUrl_iff
  by blast

lemma users_run_table:
  "userTableBody (users_run net acts st) = userTableBody st \<or>
   (\<exists>req resp v.
      Fetch req (Inr resp) \<in> set (newEffects st (users_run net acts st)) \<and>
      httpMethod req = GET \<and> url req = API_URL_users \<and>
      ok resp \<and> jsonBody resp = Inr v \<and>
      userTableBody (users_run net acts st) = usersTableOf v)"
  using users_run_accounted[of net acts st]
  unfolding accounted_iff
  by blast

lemma books_run_error_paths:
  assumes "\<forall>req res. Fetch req res \<in> set (newEffects st (books_run net acts st)) \<and>
             httpMethod req = GET \<longrightarrow> requestFailed res"
  shows "bookTableBody (books_run net acts st) = bookTableBody st"
proof (rule ccontr)
  assume "bookTableBody (books_run net acts st) \<noteq> bookTableBody st"
  with books_run_table[of net acts st] obtain req resp v where
    "Fetch req (Inr resp) \<in> set (newEffects st (books_run net acts st))"
    "httpMethod req = GET" "ok resp" "jsonBody resp = Inr v"
    by blast
  with assms have "requestFailed (Inr resp)" by blast
  with \<open>ok resp\<close> \<open>jsonBody resp = Inr v\<close> show False by simp
qed

lemma users_run_error_paths:
  assumes "\<forall>req res. Fetch req res \<in> set (newEffects st (users_run net acts st)) \<and>
             httpMethod req = GET \<longrightarrow> requestFailed res"
  shows "userTableBody (users_run net acts st) = userTableBody st"
proof (rule ccontr)
  assume "userTableBody (users_run net acts st) \<noteq> userTableBody st"
  with users_run_table[of net acts st] obtain req resp v where
    "Fetch req (Inr resp) \<in> set (newEffects st (users_run net acts st))"
    "httpMethod req = GET" "ok resp" "jsonBody resp = Inr v"
    by blast
  with assms have "requestFailed (Inr resp)" by blast
  with \<open>ok resp\<close> \<open>jsonBody resp = Inr v\<close> show False by simp
qed

lemma rows_no_error:
  "firstError f xs = None \<Longrightarrow> map f xs = map Inr (renderedRows f xs)"
  by (induction xs) (auto split: sum.splits)

lemma displayBooks_no_error:
  assumes "fst (displayBooks v st) = None"
  shows "\<exists>xs. v = JArr xs \<and> map bookRow xs = map Inr (booksTableOf v) \<and>
           displayBooks (JArr xs) st = (None, st\<lparr>bookTableBody := booksTableOf v\<rparr>)"
proof (cases v)
  case (JArr xs)
  with assms have e: "firstError bookRow xs = None"
    by (simp add: displayBooks_def forEachBook_eq)
  from rows_no_error[OF e] e JArr show ?thesis
    by (simp add: displayBooks_def forEachBook_eq booksTableOf_JArr)
qed (use assms in \<open>simp_all add: displayBooks_def\<close>)

lemma displayUsers_no_error:
  assumes "fst (displayUsers v st) = None"
  shows "\<exists>xs. v = JArr xs \<and> map userRow xs = map Inr (usersTableOf v) \<and>
           displayUsers (JArr xs) st = (None, st\<lparr>userTableBody := usersTableOf v\<rparr>)"
proof (cases v)
  case (JArr xs)
  with assms have e: "firstError userRow xs = None"
    by (simp add: displayUsers_def forEachUser_eq)
  from rows_no_error[OF e] e JArr show ?thesis
    by (simp add: displayUsers_def forEachUser_eq usersTableOf_JArr)
qed (use assms in \<open>simp_all add: displayUsers_def\<close>)

lemma books_run_rendered:
  assumes shape: "\<forall>req resp v.
      Fetch req (Inr resp) \<in> set (newEffects st (books_run net acts st)) \<and>
      httpMethod req = GET \<and> ok resp \<and> jsonBody resp = Inr v \<longrightarrow>
      fst (displayBooks v st) = None"
  shows "bookTableBody (books_run net acts st) = bookTableBody st \<or>
   (\<exists>req resp books.
      Fetch req (Inr resp) \<in> set (newEffects st (books_run net acts st)) \<and>
      httpMethod req = GET \<and>
      (url req = API_URL_books \<or> (\<exists>q. url req = API_URL_books @ lit ''?search='' @ q)) \<and>
      ok resp \<and> jsonBody resp = Inr (JArr books) \<and>
      displayBooks (JArr books) st =
        (None, st\<lparr>bookTableBody := bookTableBody (books_run net acts st)\<rparr>) \<and>
      map bookRow books = map Inr (bookTableBody (books_run net acts st)))"
proof (cases "bookTableBody (books_run net acts st) = bookTableBody st")
  case True
  then show ?thesis by simp
next
  case False
  with books_run_table[of net acts st] obtain req resp v where
    f: "Fetch req (Inr resp) \<in> set (newEffects st (books_run net acts st))"
    and g: "httpMethod req = GET"
    and u: "url req = API_URL_books \<or> (\<exists>q. url req = API_URL_books @ lit ''?search='' @ q)"
    and o: "ok resp" and j: "jsonBody resp = Inr v"
    and t: "bookTableBody (books_run net acts st) = booksTableOf v"
    by blast
  from shape f g o j have "fst (displayBooks v st) = None" by blast
  from displayBooks_no_error[OF this] obtain books where
    v: "v = JArr books"
    and m: "map bookRow books = map Inr (booksTableOf v)"
    and d: "displayBooks (JArr books) st = (None, st\<lparr>bookTableBody := booksTableOf v\<rparr>)"
    by blast
  from f g u o j v m d t show ?thesis by auto
qed

lemma users_run_rendered:
  assumes shape: "\<forall>req resp v.
      Fetch req (Inr resp) \<in> set (newEffects st (users_run net acts st)) \<and>
      httpMethod req = GET \<and> ok resp \<and> jsonBody resp = Inr v \<longrightarrow>
      fst (displayUsers v st) = None"
  shows "userTableBody (users_run net acts st) = userTableBody st \<or>
   (\<exists>req resp users.
      Fetch req (Inr resp) \<in> set (newEffects st (users_run net acts st)) \<and>
      httpMethod req = GET \<and> url req = API_URL_users \<and>
      ok resp \<and> jsonBody resp = Inr (JArr users) \<and>
      displayUsers (JArr users) st =
        (None, st\<lparr>userTableBody := userTableBody (users_run net acts st)\<rparr>) \<and>
      map userRow users = map Inr (userTableBody (users_run net acts st)))"
proof (cases "userTableBody (users_run net acts st) = userTableBody st")
  case True
  then show ?thesis by simp
next
  case False
  with users_run_table[of net acts st] obtain req resp v where
    f: "Fetch req (Inr resp) \<in> set (newEffects st (users_run net acts st))"
    and g: "httpMethod req = GET"
    and u: "url req = API_URL_users"
    and o: "ok resp" and j: "jsonBody resp = Inr v"
    and t: "userTableBody (users_run net acts st) = usersTableOf v"
    by blast
  from shape f g o j have "fst (displayUsers v st) = None" by blast
  from displayUsers_no_error[OF this] obtain users where
    v: "v = JArr users"
    and m: "map userRow users = map Inr (usersTableOf v)"
    and d: "displayUsers (JArr users) st = (None, st\<lparr>userTableBody := usersTableOf v\<rparr>)"
    by blast
  from f g u o j v m d t show ?thesis by auto
qed

section \<open>A 2xx answer with the body null\<close>

text \<open>
  The handlers that build their success alert from the response body throw on \<^verbatim>\<open>null\<close>,
  after the reload: the run ends in the catch block.
\<close>

lemma nullReply_not_failed: "\<not> requestFailed (Inr \<lparr>ok = True, jsonBody = Inr JNull\<rparr>)"
  by simp

lemma createBook_null_reply:
  assumes v: "createBook_valid st"
    and r: "net (requestsOf (trace st) @ [createBook_request st]) =
              Inr \<lparr>ok = True, jsonBody = Inr JNull\<rparr>"
  shows "\<exists>e. take 2 (rev (trace (createBook net st))) =
           [Alert (lit ''Failed to create book: '' @ message e),
            ConsoleError [CStr (lit ''Error creating book:''), CErr e]]"
  using v r
  by (simp add: createBook_defs interp_def)

lemma updateBook_null_reply:
  assumes v: "updateBook_valid st"
    and r: "net (requestsOf (trace st) @ [updateBook_request st]) =
              Inr \<lparr>ok = True, jsonBody = Inr JNull\<rparr>"
  shows "\<exists>e. take 2 (rev (trace (updateBook net st))) =
           [Alert (lit ''Failed to update book: '' @ message e),
            ConsoleError [CStr (lit ''Error updating book:''), CErr e]]"
  using v r
  by (simp add: updateBook_defs interp_def)

lemma createUser_null_reply:
  assumes v: "createUser_valid st"
    and r: "net (requestsOf (trace st) @ [createUser_request st]) =
              Inr \<lparr>ok = True, jsonBody = Inr JNull\<rparr>"
  shows "\<exists>e. take 2 (rev (trace (createUser net st))) =
           [Alert (lit ''Failed to create user: '' @ message e),
            ConsoleError [CStr (lit ''Error creating user:''), CErr e]]"
  using v r
  by (simp add: createUser_defs interp_def)

section \<open>Example runs\<close>

lemmas run_eval_defs =
  books_run_def users_run_def
  loadBooks_def loadBooks_catch_def createBook_def createBook_catch_def
  updateBook_def updateBook_catch_def deleteHighestBook_def deleteHighestBook_catch_def
  searchBooks_def searchBooks_catch_def clearSearch_def
  loadUsers_def loadUsers_catch_def createUser_def createUser_catch_def
  updateUser_def updateUser_catch_def deleteUser_def deleteUser_catch_def
  displayBooks_def displayUsers_def bookRow_def userRow_def interp_def errorOf_def
  effects_defs Let_def isUnreserved_def staleBooksPage_def staleUsersPage_def

lemma books_failed_run:
  "\<forall>req res.
     Fetch req res \<in> set (newEffects staleBooksPage
       (books_run networkDown [LoadBooks, CreateBook, SearchBooks] staleBooksPage)) \<and>
     httpMethod req = GET \<longrightarrow> requestFailed res"
  by (auto simp: newEffects_def run_eval_defs eval_defs)

lemma books_failed_run_requests:
  "requestsOf (newEffects staleBooksPage
       (books_run networkDown [LoadBooks, CreateBook, SearchBooks] staleBooksPage)) =
   [get_request API_URL_books, createBook_request staleBooksPage,
    get_request (API_URL_books @ lit ''?search=emma'')]"
  by (simp add: newEffects_def run_eval_defs eval_defs createBook_request_def)

lemma books_ok_run:
  "\<forall>req resp v.
     Fetch req (Inr resp) \<in> set (newEffects filledBooksPage
       (books_run booksServer [LoadBooks, SearchBooks, CreateBook] filledBooksPage)) \<and>
     httpMethod req = GET \<and> ok resp \<and> jsonBody resp = Inr v \<longrightarrow>
     fst (displayBooks v filledBooksPage) = None"
  by (auto simp: newEffects_def run_eval_defs eval_defs)

lemma books_ok_run_table:
  "bookTableBody (books_run booksServer [LoadBooks, SearchBooks, CreateBook] filledBooksPage) =
     [lit ''\<newline>            <td>5</td>\<newline>            <td>Dune</td>\<newline>            <td>Herbert</td>\<newline>        '']"
  by (simp add: run_eval_defs eval_defs)

lemma users_failed_run:
  "\<forall>req res.
     Fetch req res \<in> set (newEffects staleUsersPage
       (users_run networkDown [LoadUsers, CreateUser, DeleteUser True] staleUsersPage)) \<and>
     httpMethod req = GET \<longrightarrow> requestFailed res"
  by (auto simp: newEffects_def run_eval_defs eval_defs)

lemma users_ok_run:
  "\<forall>req resp v.
     Fetch req (Inr resp) \<in> set (newEffects filledUsersPage
       (users_run usersServer [LoadUsers, CreateUser, DeleteUser True] filledUsersPage)) \<and>
     httpMethod req = GET \<and> ok resp \<and> jsonBody resp = Inr v \<longrightarrow>
     fst (displayUsers v filledUsersPage) = None"
  by (auto simp: newEffects_def run_eval_defs eval_defs)

lemma users_ok_run_table:
  "userTableBody (users_run usersServer [LoadUsers, CreateUser, DeleteUser True] filledUsersPage) =
     [lit ''\<newline>            <td>1</td>\<newline>            <td>Ada</td>\<newline>        '']"
  by (simp add: run_eval_defs eval_defs)

lemma null_server_examples:
  "nullBooksServer (requestsOf (trace filledBooksPage) @ [createBook_request filledBooksPage]) =
     Inr \<lparr>ok = True, jsonBody = Inr JNull\<rparr>"
  "nullBooksServer (requestsOf (trace filledBooksPage) @ [updateBook_request filledBooksPage]) =
     Inr \<lparr>ok = True, jsonBody = Inr JNull\<rparr>"
  "nullUsersServer (requestsOf (trace filledUsersPage) @ [createUser_request filledUsersPage]) =
     Inr \<lparr>ok = True, jsonBody = Inr JNull\<rparr>"
  by (simp_all add: nullBooksServer_def nullUsersServer_def createBook_request_def
      updateBook_request_def createUser_request_def json_request_def)

section \<open>The properties of the specification\<close>

text \<open>
  C1, as stated, fails: the search handler changes the table body on a successful
  search, a run in which the only request goes to the search URL and no reload of the
  full list takes place.
\<close>

theorem search_changes_table_without_reload:
  "bookTableBody filledBooksPage = [] \<and>
   bookTableBody (books_run booksServer [SearchBooks] filledBooksPage) =
     [lit ''\<newline>            <td>5</td>\<newline>            <td>Dune</td>\<newline>            <td>Herbert</td>\<newline>        ''] \<and>
   requestsOf (newEffects filledBooksPage (books_run booksServer [SearchBooks] filledBooksPage)) =
     [get_request (lit ''/api/books?search=dune'')] \<and>
   API_URL_books = lit ''/api/books''"
proof -
  have t: "trim (searchInput filledBooksPage) = lit ''dune''" by (simp add: eval_defs)
  have ne: "trim (searchInput filledBooksPage) \<noteq> []" unfolding t by (simp add: lit_def)
  have e: "encodeURIComponent (trim (searchInput filledBooksPage)) = Inr (lit ''dune'')"
    unfolding t by (simp add: lit_def isUnreserved_def)
  have u: "API_URL_books @ lit ''?search='' @ lit ''dune'' = lit ''/api/books?search=dune''"
    by (simp add: API_URL_books_def lit_def)
  from searchBooks_requests[OF ne e, of booksServer] searchBooks_table[OF ne e, of booksServer]
  show ?thesis
    unfolding u
    by (simp add: books_run_def server_get_examples tables_of_examples)
       (simp add: filledBooksPage_def API_URL_books_def)
qed

text \<open>
  C1, amended. Over every sequence of handler invocations and input edits, in either
  client: a run in which no \<^verbatim>\<open>GET\<close> succeeded (each was rejected, came back with a
  status that is not 2xx, or carried a body that does not parse, or none was sent) ends
  with the table body it started with, so no such error path changes the table; and when
  the renderer throws on none of the bodies that came back 2xx and parsed (it never throws
  on an array of records of the data model), the table body at the end is either the one
  at the start or exactly the rows of the elements of one such body, an array, rendered in
  order: a successful reload of the full list or, in the books client, a successful
  search.
\<close>

theorem table_changes_only_by_successful_reload_or_search:
  "((\<forall>req res. Fetch req res \<in> set (newEffects st (books_run net acts st)) \<and>
        httpMethod req = GET \<longrightarrow> requestFailed res) \<longrightarrow>
      bookTableBody (books_run net acts st) = bookTableBody st) \<and>
   ((\<forall>req resp v.
        Fetch req (Inr resp) \<in> set (newEffects st (books_run net acts st)) \<and>
        httpMethod req = GET \<and> ok resp \<and> jsonBody resp = Inr v \<longrightarrow>
        fst (displayBooks v st) = None) \<longrightarrow>
      bookTableBody (books_run net acts st) = bookTableBody st \<or>
      (\<exists>req resp books.
         Fetch req (Inr resp) \<in> set (newEffects st (books_run net acts st)) \<and>
         httpMethod req = GET \<and>
         (url req = API_URL_books \<or> (\<exists>q. url req = API_URL_books @ lit ''?search='' @ q)) \<and>
         ok resp \<and> jsonBody resp = Inr (JArr books) \<and>
         displayBooks (JArr books) st =
           (None, st\<lparr>bookTableBody := bookTableBody (books_run net acts st)\<rparr>) \<and>
         map bookRow books = map Inr (bookTableBody (books_run net acts st)))) \<and>
   ((\<forall>req res. Fetch req res \<in> set (newEffects su (users_run net' acts' su)) \<and>
        httpMethod req = GET \<longrightarrow> requestFailed res) \<longrightarrow>
      userTableBody (users_run net' acts' su) = userTableBody su) \<and>
   ((\<forall>req resp v.
        Fetch req (Inr resp) \<in> set (newEffects su (users_run net' acts' su)) \<and>
        httpMethod req = GET \<and> ok resp \<and> jsonBody resp = Inr v \<longrightarrow>
        fst (displayUsers v su) = None) \<longrightarrow>
      userTableBody (users_run net' acts' su) = userTableBody su \<or>
      (\<exists>req resp users.
         Fetch req (Inr resp) \<in> set (newEffects su (users_run net' acts' su)) \<and>
         httpMethod req = GET \<and> url req = API_URL_users \<and>
         ok resp \<and> jsonBody resp = Inr (JArr users) \<and>
         displayUsers (JArr users) su =
           (None, su\<lparr>userTableBody := userTableBody (users_run net' acts' su)\<rparr>) \<and>
         map userRow users = map Inr (userTableBody (users_run net' acts' su))))"
proof (intro conjI impI)
  assume "\<forall>req res. Fetch req res \<in> set (newEffects st (books_run net acts st)) \<and>
        httpMethod req = GET \<longrightarrow> requestFailed res"
  then show "bookTableBody (books_run net acts st) = bookTableBody st"
    by (rule books_run_error_paths)
next
  assume "\<forall>req resp v.
        Fetch req (Inr resp) \<in> set (newEffects st (books_run net acts st)) \<and>
        httpMethod req = GET \<and> ok resp \<and> jsonBody resp = Inr v \<longrightarrow>
        fst (displayBooks v st) = None"
  then show "bookTableBody (books_run net acts st) = bookTableBody st \<or>
      (\<exists>req resp books.
         Fetch req (Inr resp) \<in> set (newEffects st (books_run net acts st)) \<and>
         httpMethod req = GET \<and>
         (url req = API_URL_books \<or> (\<exists>q. url req = API_URL_books @ lit ''?search='' @ q)) \<and>
         ok resp \<and> jsonBody resp = Inr (JArr books) \<and>
         displayBooks (JArr books) st =
           (None, st\<lparr>bookTableBody := bookTableBody (books_run net acts st)\<rparr>) \<and>
         map bookRow books = map Inr (bookTableBody (books_run net acts st)))"
    by (rule books_run_rendered)
next
  assume "\<forall>req res. Fetch req res \<in> set (newEffects su (users_run net' acts' su)) \<and>
        httpMethod req = GET \<longrightarrow> requestFailed res"
  then show "userTableBody (users_run net' acts' su) = userTableBody su"
    by (rule users_run_error_paths)
next
  assume "\<forall>req resp v.
        Fetch req (Inr resp) \<in> set (newEffects su (users_run net' acts' su)) \<and>
        httpMethod req = GET \<and> ok resp \<and> jsonBody resp = Inr v \<longrightarrow>
        fst (displayUsers v su) = None"
  then show "userTableBody (users_run net' acts' su) = userTableBody su \<or>
      (\<exists>req resp users.
         Fetch req (Inr resp) \<in> set (newEffects su (users_run net' acts' su)) \<and>
         httpMethod req = GET \<and> url req = API_URL_users \<and>
         ok resp \<and> jsonBody resp = Inr (JArr users) \<and>
         displayUsers (JArr users) su =
           (None, su\<lparr>userTableBody := userTableBody (users_run net' acts' su)\<rparr>) \<and>
         map userRow users = map Inr (userTableBody (users_run net' acts' su)))"
    by (rule users_run_rendered)
qed

theorem table_changes_only_by_successful_reload_or_search_witness:
  "requestsOf (newEffects staleBooksPage
       (books_run networkDown [LoadBooks, CreateBook, SearchBooks] staleBooksPage)) =
     [get_request API_URL_books, createBook_request staleBooksPage,
      get_request (API_URL_books @ lit ''?search=emma'')] \<and>
   bookTableBody (books_run networkDown [LoadBooks, CreateBook, SearchBooks] staleBooksPage) =
     bookTableBody staleBooksPage \<and>
   bookTableBody (books_run booksServer [LoadBooks, SearchBooks, CreateBook] filledBooksPage) \<noteq>
     bookTableBody filledBooksPage \<and>
   (\<exists>req resp books.
      Fetch req (Inr resp) \<in> set (newEffects filledBooksPage
        (books_run booksServer [LoadBooks, SearchBooks, CreateBook] filledBooksPage)) \<and>
      httpMethod req = GET \<and>
      (url req = API_URL_books \<or> (\<exists>q. url req = API_URL_books @ lit ''?search='' @ q)) \<and>
      ok resp \<and> jsonBody resp = Inr (JArr books) \<and>
      displayBooks (JArr books) filledBooksPage =
        (None, filledBooksPage\<lparr>bookTableBody :=
           bookTableBody (books_run booksServer [LoadBooks, SearchBooks, CreateBook]
             filledBooksPage)\<rparr>)) \<and>
   userTableBody (users_run networkDown [LoadUsers, CreateUser, DeleteUser True] staleUsersPage) =
     userTableBody staleUsersPage \<and>
   userTableBody (users_run usersServer [LoadUsers, CreateUser, DeleteUser True] filledUsersPage) \<noteq>
     userTableBody filledUsersPage \<and>
   (\<exists>req resp users.
      Fetch req (Inr resp) \<in> set (newEffects filledUsersPage
        (users_run usersServer [LoadUsers, CreateUser, DeleteUser True] filledUsersPage)) \<and>
      httpMethod req = GET \<and> url req = API_URL_users \<and>
      ok resp \<and> jsonBody resp = Inr (JArr users) \<and>
      displayUsers (JArr users) filledUsersPage =
        (None, filledUsersPage\<lparr>userTableBody :=
           userTableBody (users_run usersServer [LoadUsers, CreateUser, DeleteUser True]
             filledUsersPage)\<rparr>))"
proof -
  have nb: "bookTableBody (books_run booksServer [LoadBooks, SearchBooks, CreateBook]
      filledBooksPage) \<noteq> bookTableBody filledBooksPage"
    unfolding books_ok_run_table by (simp add: filledBooksPage_def)
  have nu: "userTableBody (users_run usersServer [LoadUsers, CreateUser, DeleteUser True]
      filledUsersPage) \<noteq> userTableBody filledUsersPage"
    unfolding users_ok_run_table by (simp add: filledUsersPage_def)
  from table_changes_only_by_successful_reload_or_search[of staleBooksPage networkDown
         "[LoadBooks, CreateBook, SearchBooks]" staleUsersPage networkDown
         "[LoadUsers, CreateUser, DeleteUser True]"]
       books_failed_run users_failed_run
  have a: "bookTableBody (books_run networkDown [LoadBooks, CreateBook, SearchBooks]
        staleBooksPage) = bookTableBody staleBooksPage"
    and b: "userTableBody (users_run networkDown [LoadUsers, CreateUser, DeleteUser True]
        staleUsersPage) = userTableBody staleUsersPage"
    by blast+
  from table_changes_only_by_successful_reload_or_search[of filledBooksPage booksServer
         "[LoadBooks, SearchBooks, CreateBook]" filledUsersPage usersServer
         "[LoadUsers, CreateUser, DeleteUser True]"]
       books_ok_run users_ok_run nb nu
  have c: "\<exists>req resp books.
      Fetch req (Inr resp) \<in> set (newEffects filledBooksPage
        (books_run booksServer [LoadBooks, SearchBooks, CreateBook] filledBooksPage)) \<and>
      httpMethod req = GET \<and>
      (url req = API_URL_books \<or> (\<exists>q. url req = API_URL_books @ lit ''?search='' @ q)) \<and>
      ok resp \<and> jsonBody resp = Inr (JArr books) \<and>
      displayBooks (JArr books) filledBooksPage =
        (None, filledBooksPage\<lparr>bookTableBody :=
           bookTableBody (books_run booksServer [LoadBooks, SearchBooks, CreateBook]
             filledBooksPage)\<rparr>)"
    and d: "\<exists>req resp users.
      Fetch req (Inr resp) \<in> set (newEffects filledUsersPage
        (users_run usersServer [LoadUsers, CreateUser, DeleteUser True] filledUsersPage)) \<and>
      httpMethod req = GET \<and> url req = API_URL_users \<and>
      ok resp \<and> jsonBody resp = Inr (JArr users) \<and>
      displayUsers (JArr users) filledUsersPage =
        (None, filledUsersPage\<lparr>userTableBody :=
           userTableBody (users_run usersServer [LoadUsers, CreateUser, DeleteUser True]
             filledUsersPage)\<rparr>)"
    by blast+
  from books_failed_run_requests a nb c b nu d show ?thesis by blast
qed

text \<open>
  C2. When a required create field is empty after trimming, the create handler shows
  its alert and does nothing else: no request is sent.
\<close>

theorem create_empty_field_no_request:
  "(trim (createTitle st) = [] \<or> trim (createAuthor st) = [] \<longrightarrow>
      createBook net st =
        st\<lparr>trace := trace st @
           [Alert (lit ''Please enter both a book title and an author name'')]\<rparr> \<and>
      requestsOf (newEffects st (createBook net st)) = []) \<and>
   (trim (createName su) = [] \<longrightarrow>
      createUser net' su = su\<lparr>trace := trace su @ [Alert (lit ''Please enter a user name'')]\<rparr> \<and>
      requestsOf (newEffects su (createUser net' su)) = [])"
proof -
  have "createBook net st =
        st\<lparr>trace := trace st @
           [Alert (lit ''Please enter both a book title and an author name'')]\<rparr> \<and>
      requestsOf (newEffects st (createBook net st)) = []"
    if "trim (createTitle st) = [] \<or> trim (createAuthor st) = []"
    using that createBook_invalid[of st net] by (auto simp: createBook_valid_def newEffects_def)
  moreover have "createUser net' su = su\<lparr>trace := trace su @ [Alert (lit ''Please enter a user name'')]\<rparr> \<and>
      requestsOf (newEffects su (createUser net' su)) = []"
    if "trim (createName su) = []"
    using that createUser_invalid[of su net'] by (auto simp: createUser_valid_def newEffects_def)
  ultimately show ?thesis by blast
qed

theorem create_empty_field_no_request_witness:
  "trim (createTitle blankBooksPage) = [] \<and>
   createBook booksServer blankBooksPage =
     blankBooksPage\<lparr>trace := trace blankBooksPage @
        [Alert (lit ''Please enter both a book title and an author name'')]\<rparr> \<and>
   requestsOf (newEffects blankBooksPage (createBook booksServer blankBooksPage)) = [] \<and>
   trim (createName blankUsersPage) = [] \<and>
   createUser usersServer blankUsersPage =
     blankUsersPage\<lparr>trace := trace blankUsersPage @ [Alert (lit ''Please enter a user name'')]\<rparr> \<and>
   requestsOf (newEffects blankUsersPage (createUser usersServer blankUsersPage)) = []"
proof -
  have hb: "trim (createTitle blankBooksPage) = []" by (simp add: eval_defs)
  have hu: "trim (createName blankUsersPage) = []" by (simp add: eval_defs)
  from create_empty_field_no_request[of blankBooksPage booksServer blankUsersPage usersServer] hb hu
  show ?thesis by blast
qed

text \<open>
  C3. When a create, update or delete request succeeds (2xx, and a parseable body where
  the handler reads one), the handler sends exactly one more request, a \<^verbatim>\<open>GET\<close> to the
  collection endpoint, and the table body is what that one reload leaves: the rendering
  of its body when the reload succeeds, the previous rows when it fails.
\<close>

theorem successful_mutation_reloads_once:
  "(createBook_valid st \<and>
    \<not> requestFailed (net (requestsOf (trace st) @ [createBook_request st])) \<longrightarrow>
      requestsOf (newEffects st (createBook net st)) =
        [createBook_request st, get_request API_URL_books] \<and>
      bookTableBody (createBook net st) =
        tableAfter booksTableOf
          (net (requestsOf (trace st) @ [createBook_request st, get_request API_URL_books]))
          (bookTableBody st)) \<and>
   (updateBook_valid st \<and>
    \<not> requestFailed (net (requestsOf (trace st) @ [updateBook_request st])) \<longrightarrow>
      requestsOf (newEffects st (updateBook net st)) =
        [updateBook_request st, get_request API_URL_books] \<and>
      bookTableBody (updateBook net st) =
        tableAfter booksTableOf
          (net (requestsOf (trace st) @ [updateBook_request st, get_request API_URL_books]))
          (bookTableBody st)) \<and>
   (responseOk (net (requestsOf (trace st) @ [deleteHighestBook_request])) \<longrightarrow>
      requestsOf (newEffects st (deleteHighestBook net True st)) =
        [deleteHighestBook_request, get_request API_URL_books] \<and>
      bookTableBody (deleteHighestBook net True st) =
        tableAfter booksTableOf
          (net (requestsOf (trace st) @ [deleteHighestBook_request, get_request API_URL_books]))
          (bookTableBody st)) \<and>
   (createUser_valid su \<and>
    \<not> requestFailed (net' (requestsOf (trace su) @ [createUser_request su])) \<longrightarrow>
      requestsOf (newEffects su (createUser net' su)) =
        [createUser_request su, get_request API_URL_users] \<and>
      userTableBody (createUser net' su) =
        tableAfter usersTableOf
          (net' (requestsOf (trace su) @ [createUser_request su, get_request API_URL_users]))
          (userTableBody su)) \<and>
   (updateUser_valid su \<and>
    \<not> requestFailed (net' (requestsOf (trace su) @ [updateUser_request su])) \<longrightarrow>
      requestsOf (newEffects su (updateUser net' su)) =
        [updateUser_request su, get_request API_URL_users] \<and>
      userTableBody (updateUser net' su) =
        tableAfter usersTableOf
          (net' (requestsOf (trace su) @ [updateUser_request su, get_request API_URL_users]))
          (userTableBody su)) \<and>
   (deleteUser_valid su \<and>
    responseOk (net' (requestsOf (trace su) @ [deleteUser_request su])) \<longrightarrow>
      requestsOf (newEffects su (deleteUser net' True su)) =
        [deleteUser_request su, get_request API_URL_users] \<and>
      userTableBody (deleteUser net' True su) =
        tableAfter usersTableOf
          (net' (requestsOf (trace su) @ [deleteUser_request su, get_request API_URL_users]))
          (userTableBody su))"
proof (intro conjI impI)
  assume "createBook_valid st \<and>
    \<not> requestFailed (net (requestsOf (trace st) @ [createBook_request st]))"
  then show "requestsOf (newEffects st (createBook net st)) =
        [createBook_request st, get_request API_URL_books]"
    and "bookTableBody (createBook net st) =
        tableAfter booksTableOf
          (net (requestsOf (trace st) @ [createBook_request st, get_request API_URL_books]))
          (bookTableBody st)"
    by (simp_all add: createBook_requests createBook_table)
next
  assume "updateBook_valid st \<and>
    \<not> requestFailed (net (requestsOf (trace st) @ [updateBook_request st]))"
  then show "requestsOf (newEffects st (updateBook net st)) =
        [updateBook_request st, get_request API_URL_books]"
    and "bookTableBody (updateBook net st) =
        tableAfter booksTableOf
          (net (requestsOf (trace st) @ [updateBook_request st, get_request API_URL_books]))
          (bookTableBody st)"
    by (simp_all add: updateBook_requests updateBook_table)
next
  assume "responseOk (net (requestsOf (trace st) @ [deleteHighestBook_request]))"
  then show "requestsOf (newEffects st (deleteHighestBook net True st)) =
        [deleteHighestBook_request, get_request API_URL_books]"
    and "bookTableBody (deleteHighestBook net True st) =
        tableAfter booksTableOf
          (net (requestsOf (trace st) @ [deleteHighestBook_request, get_request API_URL_books]))
          (bookTableBody st)"
    by (simp_all add: deleteHighestBook_requests deleteHighestBook_table)
next
  assume "createUser_valid su \<and>
    \<not> requestFailed (net' (requestsOf (trace su) @ [createUser_request su]))"
  then show "requestsOf (newEffects su (createUser net' su)) =
        [createUser_request su, get_request API_URL_users]"
    and "userTableBody (createUser net' su) =
        tableAfter usersTableOf
          (net' (requestsOf (trace su) @ [createUser_request su, get_request API_URL_users]))
          (userTableBody su)"
    by (simp_all add: createUser_requests createUser_table)
next
  assume "updateUser_valid su \<and>
    \<not> requestFailed (net' (requestsOf (trace su) @ [updateUser_request su]))"
  then show "requestsOf (newEffects su (updateUser net' su)) =
        [updateUser_request su, get_request API_URL_users]"
    and "userTableBody (updateUser net' su) =
        tableAfter usersTableOf
          (net' (requestsOf (trace su) @ [updateUser_request su, get_request API_URL_users]))
          (userTableBody su)"
    by (simp_all add: updateUser_requests updateUser_table)
next
  assume "deleteUser_valid su \<and>
    responseOk (net' (requestsOf (trace su) @ [deleteUser_request su]))"
  then show "requestsOf (newEffects su (deleteUser net' True su)) =
        [deleteUser_request su, get_request API_URL_users]"
    and "userTableBody (deleteUser net' True su) =
        tableAfter usersTableOf
          (net' (requestsOf (trace su) @ [deleteUser_request su, get_request API_URL_users]))
          (userTableBody su)"
    by (simp_all add: deleteUser_requests deleteUser_table)
qed

theorem successful_mutation_reloads_once_witness:
  "createBook_valid filledBooksPage \<and>
   \<not> requestFailed (booksServer (requestsOf (trace filledBooksPage) @ [createBook_request filledBooksPage])) \<and>
   requestsOf (newEffects filledBooksPage (createBook booksServer filledBooksPage)) =
     [createBook_request filledBooksPage, get_request API_URL_books] \<and>
   bookTableBody (createBook booksServer filledBooksPage) =
     [lit ''\<newline>            <td>5</td>\<newline>            <td>Dune</td>\<newline>            <td>Herbert</td>\<newline>        ''] \<and>
   updateBook_valid filledBooksPage \<and>
   requestsOf (newEffects filledBooksPage (updateBook booksServer filledBooksPage)) =
     [updateBook_request filledBooksPage, get_request API_URL_books] \<and>
   requestsOf (newEffects filledBooksPage (deleteHighestBook booksServer True filledBooksPage)) =
     [deleteHighestBook_request, get_request API_URL_books] \<and>
   createUser_valid filledUsersPage \<and>
   requestsOf (newEffects filledUsersPage (createUser usersServer filledUsersPage)) =
     [createUser_request filledUsersPage, get_request API_URL_users] \<and>
   updateUser_valid filledUsersPage \<and>
   requestsOf (newEffects filledUsersPage (updateUser usersServer filledUsersPage)) =
     [updateUser_request filledUsersPage, get_request API_URL_users] \<and>
   deleteUser_valid filledUsersPage \<and>
   responseOk (usersServer (requestsOf (trace filledUsersPage) @ [deleteUser_request filledUsersPage])) \<and>
   requestsOf (newEffects filledUsersPage (deleteUser usersServer True filledUsersPage)) =
     [deleteUser_request filledUsersPage, get_request API_URL_users] \<and>
   userTableBody (deleteUser usersServer True filledUsersPage) =
     [lit ''\<newline>            <td>1</td>\<newline>            <td>Ada</td>\<newline>        '']"
proof -
  have g: "booksServer (requestsOf (trace filledBooksPage) @
             [createBook_request filledBooksPage, get_request API_URL_books]) =
           Inr \<lparr>ok = True, jsonBody = Inr (JArr [exampleBook])\<rparr>"
    using server_get_examples(1)[of "requestsOf (trace filledBooksPage) @
             [createBook_request filledBooksPage]" API_URL_books] by simp
  have gu: "usersServer (requestsOf (trace filledUsersPage) @
             [deleteUser_request filledUsersPage, get_request API_URL_users]) =
           Inr \<lparr>ok = True, jsonBody = Inr (JArr [exampleUser])\<rparr>"
    using server_get_examples(2)[of "requestsOf (trace filledUsersPage) @
             [deleteUser_request filledUsersPage]" API_URL_users] by simp
  from successful_mutation_reloads_once[of filledBooksPage booksServer filledUsersPage usersServer]
  show ?thesis
    by (simp add: valid_examples server_examples g gu tables_of_examples)
qed

text \<open>
  C4. When the loader's request fails (the network fails, the status is not 2xx, or the
  body does not parse), the loader logs one console error, shows the alert, and changes
  nothing else: the page is the one before, table body included, with these effects
  added to the trace.
\<close>

theorem loader_failure_keeps_table:
  "(requestFailed (net (requestsOf (trace st) @ [get_request API_URL_books])) \<longrightarrow>
      (\<exists>e. loadBooks net st =
         st\<lparr>trace := trace st @
            [Fetch (get_request API_URL_books)
               (net (requestsOf (trace st) @ [get_request API_URL_books])),
             ConsoleError [CStr (lit ''Error loading books:''), CErr e],
             Alert (lit ''Failed to load books'')]\<rparr>)) \<and>
   (requestFailed (net' (requestsOf (trace su) @ [get_request API_URL_users])) \<longrightarrow>
      (\<exists>e. loadUsers net' su =
         su\<lparr>trace := trace su @
            [Fetch (get_request API_URL_users)
               (net' (requestsOf (trace su) @ [get_request API_URL_users])),
             ConsoleError [CStr (lit ''Error loading users:''), CErr e],
             Alert (lit ''Failed to load users'')]\<rparr>))"
  using loadBooks_failure[of net st] loadUsers_failure[of net' su] by blast

theorem loader_failure_keeps_table_witness:
  "requestFailed (networkDown (requestsOf (trace blankBooksPage) @ [get_request API_URL_books])) \<and>
   (\<exists>e. loadBooks networkDown blankBooksPage =
      blankBooksPage\<lparr>trace := trace blankBooksPage @
         [Fetch (get_request API_URL_books)
            (networkDown (requestsOf (trace blankBooksPage) @ [get_request API_URL_books])),
          ConsoleError [CStr (lit ''Error loading books:''), CErr e],
          Alert (lit ''Failed to load books'')]\<rparr>) \<and>
   requestFailed (networkDown (requestsOf (trace blankUsersPage) @ [get_request API_URL_users])) \<and>
   (\<exists>e. loadUsers networkDown blankUsersPage =
      blankUsersPage\<lparr>trace := trace blankUsersPage @
         [Fetch (get_request API_URL_users)
            (networkDown (requestsOf (trace blankUsersPage) @ [get_request API_URL_users])),
          ConsoleError [CStr (lit ''Error loading users:''), CErr e],
          Alert (lit ''Failed to load users'')]\<rparr>)"
proof -
  have hb: "requestFailed (networkDown (requestsOf (trace blankBooksPage) @ [get_request API_URL_books]))"
    by (simp add: networkDown_def)
  have hu: "requestFailed (networkDown (requestsOf (trace blankUsersPage) @ [get_request API_URL_users]))"
    by (simp add: networkDown_def)
  from loader_failure_keeps_table[of networkDown blankBooksPage networkDown blankUsersPage] hb hu
  show ?thesis by blast
qed

text \<open>
  C5. Given an array of records, the renderer empties the table body and appends one
  row per record, in the order of the array: the rows it leaves are exactly the markup of
  the records, whatever the table held before, and nothing else on the page changes.
  An empty array leaves no row.
\<close>

theorem renderer_one_row_per_record:
  "((\<forall>b\<in>set books. isBook b) \<longrightarrow>
      (\<exists>rows. displayBooks (JArr books) st = (None, st\<lparr>bookTableBody := rows\<rparr>) \<and>
              map bookRow books = map Inr rows)) \<and>
   ((\<forall>u\<in>set users. isUser u) \<longrightarrow>
      (\<exists>rows. displayUsers (JArr users) su = (None, su\<lparr>userTableBody := rows\<rparr>) \<and>
              map userRow users = map Inr rows)) \<and>
   displayBooks (JArr []) st = (None, st\<lparr>bookTableBody := []\<rparr>) \<and>
   displayUsers (JArr []) su = (None, su\<lparr>userTableBody := []\<rparr>)"
proof -
  have "displayBooks (JArr []) st = (None, st\<lparr>bookTableBody := []\<rparr>)"
    by (simp add: displayBooks_def)
  moreover have "displayUsers (JArr []) su = (None, su\<lparr>userTableBody := []\<rparr>)"
    by (simp add: displayUsers_def)
  ultimately show ?thesis
    using displayBooks_records(1)[of books st] displayBooks_records(2)[of books]
      displayUsers_records(1)[of users su] displayUsers_records(2)[of users] by blast
qed

theorem renderer_one_row_per_record_witness:
  "isBook exampleBook \<and> isBook secondBook \<and>
   displayBooks (JArr [exampleBook, secondBook]) blankBooksPage =
     (None, blankBooksPage\<lparr>bookTableBody :=
        [lit ''\<newline>            <td>5</td>\<newline>            <td>Dune</td>\<newline>            <td>Herbert</td>\<newline>        '',
         lit ''\<newline>            <td>6</td>\<newline>            <td>Emma</td>\<newline>            <td>Austen</td>\<newline>        '']\<rparr>) \<and>
   isUser exampleUser \<and>
   displayUsers (JArr [exampleUser]) blankUsersPage =
     (None, blankUsersPage\<lparr>userTableBody :=
        [lit ''\<newline>            <td>1</td>\<newline>            <td>Ada</td>\<newline>        '']\<rparr>)"
proof -
  have hb: "\<forall>b\<in>set [exampleBook, secondBook]. isBook b" by (simp add: isBook_examples)
  have hu: "\<forall>u\<in>set [exampleUser]. isUser u" by (simp add: isUser_example)
  from renderer_one_row_per_record[of "[exampleBook, secondBook]" blankBooksPage "[exampleUser]"
      blankUsersPage] hb hu
  obtain rows urows where
    b: "displayBooks (JArr [exampleBook, secondBook]) blankBooksPage =
          (None, blankBooksPage\<lparr>bookTableBody := rows\<rparr>)"
       "map bookRow [exampleBook, secondBook] = map Inr rows" and
    u: "displayUsers (JArr [exampleUser]) blankUsersPage =
          (None, blankUsersPage\<lparr>userTableBody := urows\<rparr>)"
       "map userRow [exampleUser] = map Inr urows"
    by blast
  from b(2) have "rows =
      [lit ''\<newline>            <td>5</td>\<newline>            <td>Dune</td>\<newline>            <td>Herbert</td>\<newline>        '',
       lit ''\<newline>            <td>6</td>\<newline>            <td>Emma</td>\<newline>            <td>Austen</td>\<newline>        '']"
    by (auto simp: bookRow_exampleBook bookRow_secondBook)
  moreover from u(2) have "urows =
      [lit ''\<newline>            <td>1</td>\<newline>            <td>Ada</td>\<newline>        '']"
    by (auto simp: userRow_exampleUser)
  ultimately show ?thesis using b(1) u(1) by (simp add: isBook_examples isUser_example)
qed

text \<open>
  C6. Rendering is idempotent: running the renderer a second time on the same value,
  on the page the first run left, gives the same page (and the same outcome) as the first
  run. This holds for every parsed value, arrays of records included.
\<close>

theorem rendering_idempotent:
  "displayBooks v (snd (displayBooks v st)) = displayBooks v st \<and>
   displayUsers w (snd (displayUsers w su)) = displayUsers w su"
  by (simp add: displayBooks_eq displayUsers_eq)

theorem rendering_idempotent_witness:
  "displayBooks (JArr [exampleBook, secondBook])
     (snd (displayBooks (JArr [exampleBook, secondBook]) blankBooksPage)) =
   displayBooks (JArr [exampleBook, secondBook]) blankBooksPage \<and>
   displayUsers (JArr [exampleUser]) (snd (displayUsers (JArr [exampleUser]) blankUsersPage)) =
   displayUsers (JArr [exampleUser]) blankUsersPage"
  by (rule rendering_idempotent)

text \<open>
  C7, as stated, fails: a query that holds a surrogate code unit outside a pair is
  non-empty after trimming, yet \<^verbatim>\<open>encodeURIComponent\<close> throws on it inside the
  \<^verbatim>\<open>try\<close> block, so the handler logs, alerts and sends no request at all.
\<close>

theorem search_lone_surrogate_sends_nothing:
  "trim (searchInput blankBooksPage) = [0xD800] \<and>
   searchBooks booksServer blankBooksPage =
     blankBooksPage\<lparr>trace :=
        [ConsoleError [CStr (lit ''Error searching books:''), CErr uriMalformed],
         Alert (lit ''Search failed: '' @ message uriMalformed)]\<rparr> \<and>
   requestsOf (newEffects blankBooksPage (searchBooks booksServer blankBooksPage)) = []"
proof -
  have t: "trim (searchInput blankBooksPage) = [0xD800]"
    by (simp add: eval_defs)
  have e: "encodeURIComponent (trim (searchInput blankBooksPage)) = Inl uriMalformed"
    unfolding t by (simp add: isUnreserved_def isTrailSurrogate_def isLeadSurrogate_def)
  have s: "searchBooks booksServer blankBooksPage =
     blankBooksPage\<lparr>trace :=
        [ConsoleError [CStr (lit ''Error searching books:''), CErr uriMalformed],
         Alert (lit ''Search failed: '' @ message uriMalformed)]\<rparr>"
    using searchBooks_malformed[OF _ e, of booksServer] t
    by (simp add: blankBooksPage_def)
  show ?thesis using t s by (simp add: newEffects_def blankBooksPage_def)
qed

text \<open>
  C7, amended. For every query that is non-empty after trimming and well formed (every
  surrogate code unit is part of a pair), the search handler sends exactly one request, a
  \<^verbatim>\<open>GET\<close> to the collection endpoint with \<^verbatim>\<open>?search=\<close> followed by the
  \<^verbatim>\<open>encodeURIComponent\<close> encoding of the trimmed query (unreserved characters and
  percent escapes only), and the table body is what that request leaves: the rendering of
  the result set when it succeeds. Clearing the search
  empties the search input, sends exactly one \<^verbatim>\<open>GET\<close> to the collection endpoint and
  leaves the table body that reload gives.
\<close>

theorem search_sends_one_encoded_get:
  "(trim (searchInput st) \<noteq> [] \<and> isWellFormed (trim (searchInput st)) \<longrightarrow>
      (\<exists>enc. encodeURIComponent (trim (searchInput st)) = Inr enc \<and>
         (\<forall>c\<in>set enc. isUnreserved c \<or> c = 0x25) \<and>
         requestsOf (newEffects st (searchBooks net st)) =
           [get_request (API_URL_books @ lit ''?search='' @ enc)] \<and>
         bookTableBody (searchBooks net st) =
           tableAfter booksTableOf
             (net (requestsOf (trace st) @ [get_request (API_URL_books @ lit ''?search='' @ enc)]))
             (bookTableBody st))) \<and>
   searchInput (clearSearch net st) = [] \<and>
   requestsOf (newEffects st (clearSearch net st)) = [get_request API_URL_books] \<and>
   bookTableBody (clearSearch net st) =
     tableAfter booksTableOf (net (requestsOf (trace st) @ [get_request API_URL_books]))
       (bookTableBody st)"
proof -
  have "\<exists>enc. encodeURIComponent (trim (searchInput st)) = Inr enc \<and>
         (\<forall>c\<in>set enc. isUnreserved c \<or> c = 0x25) \<and>
         requestsOf (newEffects st (searchBooks net st)) =
           [get_request (API_URL_books @ lit ''?search='' @ enc)] \<and>
         bookTableBody (searchBooks net st) =
           tableAfter booksTableOf
             (net (requestsOf (trace st) @ [get_request (API_URL_books @ lit ''?search='' @ enc)]))
             (bookTableBody st)"
    if ne: "trim (searchInput st) \<noteq> []" and wf: "isWellFormed (trim (searchInput st))"
  proof -
    from encodeURIComponent_wellFormed[OF wf]
    obtain enc where enc: "encodeURIComponent (trim (searchInput st)) = Inr enc" by blast
    from searchBooks_requests[OF ne enc, of net] searchBooks_table[OF ne enc, of net] enc
      encodeURIComponent_chars[OF enc]
    show ?thesis by blast
  qed
  moreover have "searchInput (clearSearch net st) = []"
    by (simp add: clearSearch_def loadBooks_inputs)
  ultimately show ?thesis
    using clearSearch_requests[of st net] clearSearch_table[of net st] by blast
qed

theorem search_sends_one_encoded_get_witness:
  "trim (searchInput filledBooksPage) \<noteq> [] \<and> isWellFormed (trim (searchInput filledBooksPage)) \<and>
   encodeURIComponent (trim (searchInput filledBooksPage)) = Inr (lit ''dune'') \<and>
   requestsOf (newEffects filledBooksPage (searchBooks booksServer filledBooksPage)) =
     [get_request (API_URL_books @ lit ''?search='' @ lit ''dune'')] \<and>
   bookTableBody (searchBooks booksServer filledBooksPage) =
     [lit ''\<newline>            <td>5</td>\<newline>            <td>Dune</td>\<newline>            <td>Herbert</td>\<newline>        ''] \<and>
   searchInput (clearSearch booksServer filledBooksPage) = [] \<and>
   requestsOf (newEffects filledBooksPage (clearSearch booksServer filledBooksPage)) =
     [get_request API_URL_books]"
proof -
  have t: "trim (searchInput filledBooksPage) = lit ''dune''" by (simp add: eval_defs)
  have ne: "trim (searchInput filledBooksPage) \<noteq> []" unfolding t by (simp add: lit_def)
  have wf: "isWellFormed (trim (searchInput filledBooksPage))"
    unfolding t by (simp add: lit_def isLeadSurrogate_def isTrailSurrogate_def)
  have e: "encodeURIComponent (trim (searchInput filledBooksPage)) = Inr (lit ''dune'')"
    unfolding t by (simp add: lit_def isUnreserved_def)
  from search_sends_one_encoded_get[of filledBooksPage booksServer] ne wf e
  show ?thesis
    by (auto simp: server_get_examples tables_of_examples)
qed

text \<open>
  C8. The update handler parses the identifier input with \<^verbatim>\<open>parseInt\<close>. When the parsed
  identifier is truthy (neither \<open>NaN\<close> nor zero) and every new field is non-empty after
  trimming, the first thing the handler does is send the \<^verbatim>\<open>PUT\<close> request for that
  identifier; otherwise it shows its alert and does nothing else, so no request is sent.
\<close>

theorem update_validation:
  "(truthyNumber n \<longleftrightarrow> n \<noteq> NaN \<and> n \<noteq> Num 0) \<and>
   (truthyNumber (parseInt (updateId_books st)) \<and> trim (updateTitle st) \<noteq> [] \<and>
    trim (updateAuthor st) \<noteq> [] \<longrightarrow>
      take 1 (newEffects st (updateBook net st)) =
        [Fetch (updateBook_request st) (net (requestsOf (trace st) @ [updateBook_request st]))] \<and>
      httpMethod (updateBook_request st) = PUT) \<and>
   (\<not> (truthyNumber (parseInt (updateId_books st)) \<and> trim (updateTitle st) \<noteq> [] \<and>
       trim (updateAuthor st) \<noteq> []) \<longrightarrow>
      updateBook net st =
        st\<lparr>trace := trace st @
           [Alert (lit ''Please enter the Book ID, new title, and new author'')]\<rparr> \<and>
      requestsOf (newEffects st (updateBook net st)) = []) \<and>
   (truthyNumber (parseInt (updateId_users su)) \<and> trim (updateName su) \<noteq> [] \<longrightarrow>
      take 1 (newEffects su (updateUser net' su)) =
        [Fetch (updateUser_request su) (net' (requestsOf (trace su) @ [updateUser_request su]))] \<and>
      httpMethod (updateUser_request su) = PUT) \<and>
   (\<not> (truthyNumber (parseInt (updateId_users su)) \<and> trim (updateName su) \<noteq> []) \<longrightarrow>
      updateUser net' su =
        su\<lparr>trace := trace su @ [Alert (lit ''Please enter both User ID and new name'')]\<rparr> \<and>
      requestsOf (newEffects su (updateUser net' su)) = [])"
proof -
  have n: "truthyNumber n \<longleftrightarrow> n \<noteq> NaN \<and> n \<noteq> Num 0"
    by (cases n) simp_all
  have b1: "take 1 (newEffects st (updateBook net st)) =
        [Fetch (updateBook_request st) (net (requestsOf (trace st) @ [updateBook_request st]))] \<and>
      httpMethod (updateBook_request st) = PUT" if "updateBook_valid st"
    using that updateBook_first[of st net] by (simp add: updateBook_request_def json_request_def)
  have b2: "updateBook net st =
        st\<lparr>trace := trace st @
           [Alert (lit ''Please enter the Book ID, new title, and new author'')]\<rparr> \<and>
      requestsOf (newEffects st (updateBook net st)) = []" if "\<not> updateBook_valid st"
    using that updateBook_invalid[of st net] by (simp add: newEffects_def)
  have u1: "take 1 (newEffects su (updateUser net' su)) =
        [Fetch (updateUser_request su) (net' (requestsOf (trace su) @ [updateUser_request su]))] \<and>
      httpMethod (updateUser_request su) = PUT" if "updateUser_valid su"
    using that updateUser_first[of su net'] by (simp add: updateUser_request_def json_request_def)
  have u2: "updateUser net' su =
        su\<lparr>trace := trace su @ [Alert (lit ''Please enter both User ID and new name'')]\<rparr> \<and>
      requestsOf (newEffects su (updateUser net' su)) = []" if "\<not> updateUser_valid su"
    using that updateUser_invalid[of su net'] by (simp add: newEffects_def)
  from n b1 b2 u1 u2 show ?thesis
    unfolding updateBook_valid_def updateUser_valid_def by blast
qed

theorem update_validation_witness:
  "truthyNumber (parseInt (updateId_books filledBooksPage)) \<and>
   trim (updateTitle filledBooksPage) \<noteq> [] \<and> trim (updateAuthor filledBooksPage) \<noteq> [] \<and>
   take 1 (newEffects filledBooksPage (updateBook booksServer filledBooksPage)) =
     [Fetch (updateBook_request filledBooksPage)
        (booksServer (requestsOf (trace filledBooksPage) @ [updateBook_request filledBooksPage]))] \<and>
   parseInt (updateId_books blankBooksPage) = Num 0 \<and>
   updateBook booksServer blankBooksPage =
     blankBooksPage\<lparr>trace := trace blankBooksPage @
        [Alert (lit ''Please enter the Book ID, new title, and new author'')]\<rparr> \<and>
   truthyNumber (parseInt (updateId_users filledUsersPage)) \<and>
   trim (updateName filledUsersPage) \<noteq> [] \<and>
   take 1 (newEffects filledUsersPage (updateUser usersServer filledUsersPage)) =
     [Fetch (updateUser_request filledUsersPage)
        (usersServer (requestsOf (trace filledUsersPage) @ [updateUser_request filledUsersPage]))] \<and>
   parseInt (updateId_users blankUsersPage) = NaN \<and>
   updateUser usersServer blankUsersPage =
     blankUsersPage\<lparr>trace := trace blankUsersPage @
        [Alert (lit ''Please enter both User ID and new name'')]\<rparr>"
proof -
  have h1: "truthyNumber (parseInt (updateId_books filledBooksPage)) \<and>
      trim (updateTitle filledBooksPage) \<noteq> [] \<and> trim (updateAuthor filledBooksPage) \<noteq> []"
    by (simp add: eval_defs)
  have h2: "parseInt (updateId_books blankBooksPage) = Num 0" by (simp add: eval_defs)
  have h3: "truthyNumber (parseInt (updateId_users filledUsersPage)) \<and>
      trim (updateName filledUsersPage) \<noteq> []"
    by (simp add: eval_defs)
  have h4: "parseInt (updateId_users blankUsersPage) = NaN" by (simp add: eval_defs)
  from h2 have h2': "\<not> truthyNumber (parseInt (updateId_books blankBooksPage))" by simp
  from h4 have h4': "\<not> truthyNumber (parseInt (updateId_users blankUsersPage))" by simp
  from update_validation[of _ filledBooksPage booksServer filledUsersPage usersServer] h1 h3
       update_validation[of _ blankBooksPage booksServer blankUsersPage usersServer] h2 h2' h4 h4'
  show ?thesis by blast
qed

text \<open>
  C9 does not hold of the code. When the request of \<open>createBook\<close>, \<open>updateBook\<close> or
  \<open>createUser\<close> is answered 2xx with the body \<^verbatim>\<open>null\<close>, the handler empties the inputs
  of its form and reloads, and only then throws while it builds the success alert from
  the body: the run ends in the catch block, with the console error and the failure
  alert as its last two effects, and the inputs are cleared all the same.
\<close>

theorem inputs_cleared_on_a_caught_error:
  "(createBook_valid st \<and>
    net (requestsOf (trace st) @ [createBook_request st]) =
      Inr \<lparr>ok = True, jsonBody = Inr JNull\<rparr> \<longrightarrow>
      books_inputs (createBook net st) =
        ([], [], updateId_books st, updateTitle st, updateAuthor st, searchInput st) \<and>
      (\<exists>e. take 2 (rev (trace (createBook net st))) =
         [Alert (lit ''Failed to create book: '' @ message e),
          ConsoleError [CStr (lit ''Error creating book:''), CErr e]])) \<and>
   (updateBook_valid st \<and>
    net (requestsOf (trace st) @ [updateBook_request st]) =
      Inr \<lparr>ok = True, jsonBody = Inr JNull\<rparr> \<longrightarrow>
      books_inputs (updateBook net st) =
        (createTitle st, createAuthor st, [], [], [], searchInput st) \<and>
      (\<exists>e. take 2 (rev (trace (updateBook net st))) =
         [Alert (lit ''Failed to update book: '' @ message e),
          ConsoleError [CStr (lit ''Error updating book:''), CErr e]])) \<and>
   (createUser_valid su \<and>
    net' (requestsOf (trace su) @ [createUser_request su]) =
      Inr \<lparr>ok = True, jsonBody = Inr JNull\<rparr> \<longrightarrow>
      users_inputs (createUser net' su) =
        ([], updateId_users su, updateName su, deleteId su) \<and>
      (\<exists>e. take 2 (rev (trace (createUser net' su))) =
         [Alert (lit ''Failed to create user: '' @ message e),
          ConsoleError [CStr (lit ''Error creating user:''), CErr e]]))"
proof (intro conjI impI)
  assume a: "createBook_valid st \<and>
    net (requestsOf (trace st) @ [createBook_request st]) =
      Inr \<lparr>ok = True, jsonBody = Inr JNull\<rparr>"
  then show "books_inputs (createBook net st) =
        ([], [], updateId_books st, updateTitle st, updateAuthor st, searchInput st)"
    by (simp add: createBook_inputs)
  from a show "\<exists>e. take 2 (rev (trace (createBook net st))) =
         [Alert (lit ''Failed to create book: '' @ message e),
          ConsoleError [CStr (lit ''Error creating book:''), CErr e]]"
    by (simp add: createBook_null_reply)
next
  assume a: "updateBook_valid st \<and>
    net (requestsOf (trace st) @ [updateBook_request st]) =
      Inr \<lparr>ok = True, jsonBody = Inr JNull\<rparr>"
  then show "books_inputs (updateBook net st) =
        (createTitle st, createAuthor st, [], [], [], searchInput st)"
    by (simp add: updateBook_inputs)
  from a show "\<exists>e. take 2 (rev (trace (updateBook net st))) =
         [Alert (lit ''Failed to update book: '' @ message e),
          ConsoleError [CStr (lit ''Error updating book:''), CErr e]]"
    by (simp add: updateBook_null_reply)
next
  assume a: "createUser_valid su \<and>
    net' (requestsOf (trace su) @ [createUser_request su]) =
      Inr \<lparr>ok = True, jsonBody = Inr JNull\<rparr>"
  then show "users_inputs (createUser net' su) =
        ([], updateId_users su, updateName su, deleteId su)"
    by (simp add: createUser_inputs)
  from a show "\<exists>e. take 2 (rev (trace (createUser net' su))) =
         [Alert (lit ''Failed to create user: '' @ message e),
          ConsoleError [CStr (lit ''Error creating user:''), CErr e]]"
    by (simp add: createUser_null_reply)
qed

theorem inputs_cleared_on_a_caught_error_witness:
  "createBook_valid filledBooksPage \<and>
   nullBooksServer (requestsOf (trace filledBooksPage) @ [createBook_request filledBooksPage]) =
     Inr \<lparr>ok = True, jsonBody = Inr JNull\<rparr> \<and>
   createTitle filledBooksPage = lit '' Dune '' \<and>
   createAuthor filledBooksPage = lit ''Herbert'' \<and>
   books_inputs (createBook nullBooksServer filledBooksPage) =
     ([], [], updateId_books filledBooksPage, updateTitle filledBooksPage,
      updateAuthor filledBooksPage, searchInput filledBooksPage) \<and>
   (\<exists>e. take 2 (rev (trace (createBook nullBooksServer filledBooksPage))) =
      [Alert (lit ''Failed to create book: '' @ message e),
       ConsoleError [CStr (lit ''Error creating book:''), CErr e]]) \<and>
   updateBook_valid filledBooksPage \<and>
   books_inputs (updateBook nullBooksServer filledBooksPage) =
     (createTitle filledBooksPage, createAuthor filledBooksPage, [], [], [],
      searchInput filledBooksPage) \<and>
   (\<exists>e. take 2 (rev (trace (updateBook nullBooksServer filledBooksPage))) =
      [Alert (lit ''Failed to update book: '' @ message e),
       ConsoleError [CStr (lit ''Error updating book:''), CErr e]]) \<and>
   createUser_valid filledUsersPage \<and>
   users_inputs (createUser nullUsersServer filledUsersPage) =
     ([], updateId_users filledUsersPage, updateName filledUsersPage, deleteId filledUsersPage) \<and>
   (\<exists>e. take 2 (rev (trace (createUser nullUsersServer filledUsersPage))) =
      [Alert (lit ''Failed to create user: '' @ message e),
       ConsoleError [CStr (lit ''Error creating user:''), CErr e]])"
proof -
  have f: "createTitle filledBooksPage = lit '' Dune ''"
    "createAuthor filledBooksPage = lit ''Herbert''"
    by (simp_all add: filledBooksPage_def)
  from inputs_cleared_on_a_caught_error[of filledBooksPage nullBooksServer filledUsersPage
         nullUsersServer]
       valid_examples(1,2,3) null_server_examples f
  show ?thesis by blast
qed

text \<open>
  C10. When the user declines the confirmation dialog, a delete handler returns at once:
  the page is the one before with only the dialog added to the trace, so no request is
  sent and the table body and all inputs are unchanged. For \<open>deleteUser\<close> the dialog
  opens once the identifier has validated.
\<close>

theorem declined_delete_changes_nothing:
  "deleteHighestBook net False st =
     st\<lparr>trace := trace st @
        [Confirm (lit ''Are you sure you want to delete the book with the highest ID?'') False]\<rparr> \<and>
   requestsOf (newEffects st (deleteHighestBook net False st)) = [] \<and>
   bookTableBody (deleteHighestBook net False st) = bookTableBody st \<and>
   books_inputs (deleteHighestBook net False st) = books_inputs st \<and>
   (truthyNumber (parseInt (deleteId su)) \<longrightarrow>
      deleteUser net' False su =
        su\<lparr>trace := trace su @
           [Confirm (lit ''Are you sure you want to delete user ID '' @
                     numberToString (parseInt (deleteId su)) @ lit ''?'') False]\<rparr> \<and>
      requestsOf (newEffects su (deleteUser net' False su)) = [] \<and>
      userTableBody (deleteUser net' False su) = userTableBody su \<and>
      users_inputs (deleteUser net' False su) = users_inputs su)"
  using deleteUser_declined[of su net']
  by (simp add: deleteHighestBook_declined newEffects_def books_inputs_def users_inputs_def
      deleteUser_valid_def)

theorem declined_delete_changes_nothing_witness:
  "deleteHighestBook booksServer False filledBooksPage =
     filledBooksPage\<lparr>trace := trace filledBooksPage @
        [Confirm (lit ''Are you sure you want to delete the book with the highest ID?'') False]\<rparr> \<and>
   truthyNumber (parseInt (deleteId filledUsersPage)) \<and>
   deleteUser usersServer False filledUsersPage =
     filledUsersPage\<lparr>trace := trace filledUsersPage @
        [Confirm (lit ''Are you sure you want to delete user ID '' @
                  numberToString (parseInt (deleteId filledUsersPage)) @ lit ''?'') False]\<rparr> \<and>
   requestsOf (newEffects filledUsersPage (deleteUser usersServer False filledUsersPage)) = [] \<and>
   userTableBody (deleteUser usersServer False filledUsersPage) = userTableBody filledUsersPage \<and>
   users_inputs (deleteUser usersServer False filledUsersPage) = users_inputs filledUsersPage"
proof -
  have h: "truthyNumber (parseInt (deleteId filledUsersPage))" by (simp add: eval_defs)
  from declined_delete_changes_nothing[of booksServer filledBooksPage filledUsersPage usersServer] h
  show ?thesis by blast
qed

end
